theory Spec2Isabelle
  imports Complex_Main "HOL-Library.Word"
begin

section \<open>Banking system: accounts, cards, card numbers and account closure\<close>

text \<open>
  A shallow embedding of the account classes (BankAccount, SavingAccount, CheckingAccount),
  the card classes (Card, DebitCard, CreditCard), the card number generator and
  Services::closeAccount.

  Conventions of the embedding.
  \<^item> A C++ \<open>double\<close> is a \<^typ>\<open>real\<close>. A sum or a difference of doubles is the exact
    one rounded to the nearest double, a tie going to the even significand (\<open>dadd\<close>,
    \<open>dsub\<close>); comparisons and the unary minus are exact. Overflow to an infinity and NaN
    are not modelled.
  \<^item> A C++ \<open>int\<close> that only counts or names something is an \<^typ>\<open>int\<close>.
  \<^item> \<open>std::time(nullptr)\<close> is read from the environment: the parameter \<open>now\<close>.
  \<^item> Output on \<open>std::cout\<close> and \<open>std::cerr\<close> is not part of the state.
  \<^item> A thrown exception is the left injection of a sum.
  \<^item> A member keeps its name without the trailing underscore: \<open>account_balance\<close> is the
    member \<open>account_balance_\<close>.
\<close>

subsection \<open>Exceptions and transactions\<close>

datatype exn =
    invalid_argument string
  | runtime_error string
  | length_error string

datatype Type = DEPOSIT | WITHDRAWAL | INTEREST | FEE | PURCHASE | UNKNOWN

record Transaction =
  accountNumber :: string
  txn_type :: Type
  txn_amount :: real
  balanceAfter :: real
  description :: string
  timestamp :: int

subsection \<open>std::to_string on an int\<close>

definition digit_char :: "nat \<Rightarrow> char" where
  "digit_char d = char_of (48 + d)"

function string_of_nat :: "nat \<Rightarrow> string" where
  "string_of_nat n =
     (if n < 10 then [digit_char n] else string_of_nat (n div 10) @ [digit_char (n mod 10)])"
  by pat_completeness auto
termination
  by (relation "measure id") auto

definition to_string :: "int \<Rightarrow> string" where
  "to_string i = (if i < 0 then CHR ''-'' # string_of_nat (nat (- i)) else string_of_nat (nat i))"

subsection \<open>Arithmetic of double\<close>

text \<open>
  The doubles are the multiples \<open>m * 2 ^ e\<close> of a power of two with \<open>\<bar>m\<bar> < 2 ^ 53\<close> and
  \<open>- 1074 \<le> e\<close>. \<open>round_even\<close> is the integer nearest to a real, the even one of the two
  at a tie. \<open>ulp_exponent x\<close> is the exponent of the unit in the last place at \<open>x\<close>:
  \<open>e - 52\<close> for \<open>2 ^ e \<le> \<bar>x\<bar> < 2 ^ (e + 1)\<close>, and \<open>- 1074\<close> from the subnormal numbers down.
  \<open>fl x\<close> is the double nearest to \<open>x\<close>; \<open>dadd\<close> and \<open>dsub\<close> are \<open>+\<close> and \<open>-\<close> of the
  program on doubles.
\<close>

definition round_even :: "real \<Rightarrow> int" where
  "round_even y =
     (let f = \<lfloor>y\<rfloor>; r = y - of_int f
      in if r < 1 / 2 then f else if 1 / 2 < r then f + 1 else if even f then f else f + 1)"

definition ulp_exponent :: "real \<Rightarrow> int" where
  "ulp_exponent x = max (\<lfloor>log 2 \<bar>x\<bar>\<rfloor> - 52) (- 1074)"

definition fl :: "real \<Rightarrow> real" where
  "fl x =
     (if x = 0 then 0
      else of_int (round_even (x / 2 powr of_int (ulp_exponent x))) * 2 powr of_int (ulp_exponent x))"

definition dadd :: "real \<Rightarrow> real \<Rightarrow> real" where
  "dadd a b = fl (a + b)"

definition dsub :: "real \<Rightarrow> real \<Rightarrow> real" where
  "dsub a b = fl (a - b)"

subsection \<open>BankAccount\<close>

record BankAccount =
  account_number :: int
  account_balance :: real
  interest_rate :: real
  accountType :: string
  hasLowBalance :: bool
  deposit :: real
  withdrawal :: real
  transactions :: "Transaction list"

definition LOW_BALANCE_THRESHOLD :: real where
  "LOW_BALANCE_THRESHOLD = 500"

definition getAccountBalance :: "'a BankAccount_scheme \<Rightarrow> real" where
  "getAccountBalance a = account_balance a"

definition getAccountNumber :: "'a BankAccount_scheme \<Rightarrow> int" where
  "getAccountNumber a = account_number a"

definition getTransactions :: "'a BankAccount_scheme \<Rightarrow> Transaction list" where
  "getTransactions a = transactions a"

definition setBalanceInternal :: "real \<Rightarrow> 'a BankAccount_scheme \<Rightarrow> 'a BankAccount_scheme" where
  "setBalanceInternal newBalance a = a\<lparr>account_balance := newBalance\<rparr>"

text \<open>
  setLowBalance recomputes the flag; onLowBalance, called when the flag rises, only prints
  (no class of the repository overrides it).
\<close>

definition setLowBalance :: "'a BankAccount_scheme \<Rightarrow> 'a BankAccount_scheme" where
  "setLowBalance a = a\<lparr>hasLowBalance := (account_balance a < LOW_BALANCE_THRESHOLD)\<rparr>"

definition emplace_back ::
  "Type \<Rightarrow> real \<Rightarrow> string \<Rightarrow> int \<Rightarrow> 'a BankAccount_scheme \<Rightarrow> 'a BankAccount_scheme" where
  "emplace_back ty amount descr ts a =
     a\<lparr>transactions := transactions a @
        [\<lparr>accountNumber = to_string (account_number a), txn_type = ty, txn_amount = amount,
          balanceAfter = account_balance a, description = descr, timestamp = ts\<rparr>]\<rparr>"

definition addTransaction ::
  "Type \<Rightarrow> real \<Rightarrow> int \<Rightarrow> 'a BankAccount_scheme \<Rightarrow> 'a BankAccount_scheme" where
  "addTransaction ty amount ts a = emplace_back ty amount [] ts a"

definition applyDeposit ::
  "'a BankAccount_scheme \<Rightarrow> real \<Rightarrow> int \<Rightarrow> bool \<times> 'a BankAccount_scheme" where
  "applyDeposit a amount now =
     (if amount \<le> 0 then (False, a)
      else (True,
        setLowBalance (emplace_back DEPOSIT amount ''Deposit'' now
          (a\<lparr>account_balance := dadd (account_balance a) amount\<rparr>))))"

text \<open>
  A call that can throw returns the exception or the returned value, together with the
  object as the call leaves it.
\<close>

definition BankAccount_applyWithdraw ::
  "'a BankAccount_scheme \<Rightarrow> real \<Rightarrow> int \<Rightarrow> (exn + bool) \<times> 'a BankAccount_scheme" where
  "BankAccount_applyWithdraw a amount now =
     (if amount \<le> 0 then (Inl (invalid_argument ''Withdrawal amount must be positive''), a)
      else if account_balance a < amount
        then (Inl (runtime_error ''Insufficient funds for withdrawal''), a)
      else (Inr True,
        setLowBalance (emplace_back WITHDRAWAL amount ''Withdrawal'' now
          (a\<lparr>account_balance := dsub (account_balance a) amount\<rparr>))))"

text \<open>
  The constructors of BankAccount. The account number comes from the static counter
  \<open>next_account_number_\<close>, or is given.
\<close>

definition BankAccount_default :: "int \<Rightarrow> BankAccount" where
  "BankAccount_default next_account_number =
     \<lparr>account_number = next_account_number, account_balance = 0, interest_rate = 0,
      accountType = ''NONE'', hasLowBalance = False, deposit = 0, withdrawal = 0,
      transactions = []\<rparr>"

definition BankAccount_restore :: "int \<Rightarrow> real \<Rightarrow> string \<Rightarrow> BankAccount" where
  "BankAccount_restore exisiting_account_number balance acctType =
     setLowBalance
       \<lparr>account_number = exisiting_account_number, account_balance = balance,
        interest_rate = 0, accountType = acctType, hasLowBalance = False, deposit = 0,
        withdrawal = 0, transactions = []\<rparr>"

definition BankAccount_init :: "real \<Rightarrow> real \<Rightarrow> real \<Rightarrow> real \<Rightarrow> string \<Rightarrow> int \<Rightarrow> BankAccount" where
  "BankAccount_init dep wd balance rate acctType next_account_number =
     setLowBalance
       \<lparr>account_number = next_account_number, account_balance = balance, interest_rate = rate,
        accountType = acctType, hasLowBalance = False, deposit = dep, withdrawal = wd,
        transactions = []\<rparr>"

subsection \<open>SavingAccount\<close>

text \<open>
  SavingAccount declares an interest rate of its own, which hides the one of the base
  class; it is \<open>saving_interest_rate\<close> here.
\<close>

record SavingAccount = BankAccount +
  min_balance :: real
  withdrawal_times_this_month :: int
  saving_interest_rate :: real

definition SavingAccount_applyWithdraw ::
  "SavingAccount \<Rightarrow> real \<Rightarrow> int \<Rightarrow> (exn + bool) \<times> SavingAccount" where
  "SavingAccount_applyWithdraw s amount now =
     (if dsub (getAccountBalance s) amount < min_balance s
        then (Inl (runtime_error ''Withdrawal violates minimum balance requirements''), s)
      else if withdrawal_times_this_month s \<ge> 6
        then (Inl (runtime_error ''Maximum monthly withdrawal exceeded.''), s)
      else (case BankAccount_applyWithdraw s amount now of
              (Inl e, s') \<Rightarrow> (Inl e, s')
            | (Inr ok, s') \<Rightarrow>
                if ok
                then (Inr True,
                      s'\<lparr>withdrawal_times_this_month := withdrawal_times_this_month s' + 1\<rparr>)
                else (Inr False, s')))"

definition resetMonthlyWithdrawals :: "SavingAccount \<Rightarrow> SavingAccount" where
  "resetMonthlyWithdrawals s = s\<lparr>withdrawal_times_this_month := 0\<rparr>"

text \<open>The three constructors of SavingAccount; each sets the minimum balance to 500.\<close>

definition SavingAccount_default :: "int \<Rightarrow> SavingAccount" where
  "SavingAccount_default next_account_number =
     BankAccount.extend (BankAccount_default next_account_number)
       (SavingAccount.fields 500 0 0)"

definition SavingAccount_initial :: "int \<Rightarrow> real \<Rightarrow> real \<Rightarrow> int \<Rightarrow> SavingAccount" where
  "SavingAccount_initial next_account_number initial_balance rate now =
     (let s = BankAccount.extend (BankAccount_default next_account_number)
                (SavingAccount.fields 500 0 rate)
      in if initial_balance > 0 then snd (applyDeposit s initial_balance now) else s)"

definition SavingAccount_restore :: "int \<Rightarrow> real \<Rightarrow> string \<Rightarrow> SavingAccount" where
  "SavingAccount_restore number balance customerId =
     BankAccount.extend (BankAccount_restore number balance customerId)
       (SavingAccount.fields 500 0 0)"

subsection \<open>CheckingAccount and the store of accounts\<close>

text \<open>
  An account that another object refers to lives in a store: a map from addresses to
  accounts. A \<open>std::weak_ptr\<close> is an optional address, \<open>lock\<close> gives the address back
  when an object is alive there. The lists of cards a CheckingAccount owns and its member
  \<open>initial_balance_\<close>, which no function below reads, are left out.
\<close>

record CheckingAccount = BankAccount +
  overdraft_limit :: real
  monthly_maintenance_fee :: real
  minimum_balance_waiver :: real
  has_overdraft_protection :: bool
  monthly_transaction_count :: int
  is_business_account :: bool
  daily_withdrawal_limit :: real
  overdraft_backup_account :: "nat option"

datatype account_obj = Saving SavingAccount | Checking CheckingAccount

type_synonym heap = "nat \<Rightarrow> account_obj option"

definition lock :: "heap \<Rightarrow> nat option \<Rightarrow> nat option" where
  "lock h w = (case w of None \<Rightarrow> None
               | Some q \<Rightarrow> (case h q of None \<Rightarrow> None | Some obj \<Rightarrow> Some q))"

text \<open>
  The constructor CheckingAccount(overdraft_limit, monthly_fee, fee_waiver_balance,
  daily_withdrawal_limit, initial_balance), and linkOverdraftProtection.
\<close>

definition CheckingAccount_new ::
  "real \<Rightarrow> real \<Rightarrow> real \<Rightarrow> real \<Rightarrow> real \<Rightarrow> int \<Rightarrow> CheckingAccount" where
  "CheckingAccount_new overdraft monthly_fee fee_waiver_balance daily_limit initial_balance
       next_account_number =
     BankAccount.extend (BankAccount_init 0 0 initial_balance 0 ''None'' next_account_number)
       (CheckingAccount.fields overdraft monthly_fee fee_waiver_balance False 0 False
          daily_limit None)"


definition count_transaction :: "CheckingAccount \<Rightarrow> CheckingAccount" where
  "count_transaction c = c\<lparr>monthly_transaction_count := monthly_transaction_count c + 1\<rparr>"

text \<open>
  The four statements that end both successful paths of CheckingAccount::applyWithdraw:
  set the balance, add the WITHDRAWAL transaction, count it, re-evaluate low balance.
\<close>

definition settle_withdrawal :: "real \<Rightarrow> real \<Rightarrow> int \<Rightarrow> CheckingAccount \<Rightarrow> CheckingAccount" where
  "settle_withdrawal newBalance amount now c =
     setLowBalance (count_transaction
       (addTransaction WITHDRAWAL amount now (setBalanceInternal newBalance c)))"

definition modify_checking :: "nat \<Rightarrow> (CheckingAccount \<Rightarrow> CheckingAccount) \<Rightarrow> heap \<Rightarrow> heap" where
  "modify_checking p f h =
     (case h p of Some (Checking c) \<Rightarrow> h(p \<mapsto> Checking (f c)) | _ \<Rightarrow> h)"

text \<open>
  The virtual call \<open>applyWithdraw\<close> on the account at address \<open>p\<close>. A SavingAccount runs
  SavingAccount::applyWithdraw, a CheckingAccount runs CheckingAccount::applyWithdraw, which
  calls \<open>applyWithdraw\<close> again on its backup account: a chain of backup accounts may be
  cyclic, so the depth of calls is bounded by fuel and \<open>None\<close> is a call that has not returned
  within it (or a call on an address that holds no object). After the backup's call this
  account is read from the store again: the backup may be this very account.
\<close>

fun applyWithdraw :: "nat \<Rightarrow> heap \<Rightarrow> nat \<Rightarrow> real \<Rightarrow> int \<Rightarrow> ((exn + bool) \<times> heap) option" where
  "applyWithdraw 0 h p amount now = None"
| "applyWithdraw (Suc n) h p amount now =
     (case h p of
        None \<Rightarrow> None
      | Some (Saving s) \<Rightarrow>
          (case SavingAccount_applyWithdraw s amount now of
             (r, s') \<Rightarrow> Some (r, h(p \<mapsto> Saving s')))
      | Some (Checking c) \<Rightarrow>
          if amount \<le> 0 then Some (Inr False, h)
          else
            let currentBalance = getAccountBalance c;
                available = dadd currentBalance (overdraft_limit c)
            in if amount > available then
                 if \<not> has_overdraft_protection c then Some (Inr False, h)
                 else
                   (case lock h (overdraft_backup_account c) of
                      None \<Rightarrow> Some (Inr False, h)
                    | Some backup \<Rightarrow>
                        let neededFromBackup = dsub amount available
                        in (case applyWithdraw n h backup neededFromBackup now of
                              None \<Rightarrow> None
                            | Some (Inl e, h1) \<Rightarrow> Some (Inl e, h1)
                            | Some (Inr ok, h1) \<Rightarrow>
                                if \<not> ok then Some (Inr False, h1)
                                else Some (Inr True,
                                  modify_checking p
                                    (\<lambda>c1. settle_withdrawal (- overdraft_limit c1) amount now c1)
                                    h1)))
               else Some (Inr True,
                 h(p \<mapsto> Checking (settle_withdrawal (dsub currentBalance amount) amount now c))))"

declare applyWithdraw.simps [simp del]

definition balance_of :: "account_obj \<Rightarrow> real" where
  "balance_of obj = (case obj of Saving s \<Rightarrow> getAccountBalance s | Checking c \<Rightarrow> getAccountBalance c)"

definition number_of :: "account_obj \<Rightarrow> int" where
  "number_of obj = (case obj of Saving s \<Rightarrow> getAccountNumber s | Checking c \<Rightarrow> getAccountNumber c)"


text \<open>
  Two stores that differ only in daily withdrawal limits: \<open>relimit f h\<close> is the store \<open>h\<close>
  with the limit of the CheckingAccount at each address \<open>a\<close> replaced by \<open>f a\<close>.
\<close>

definition set_daily_limit :: "real \<Rightarrow> account_obj \<Rightarrow> account_obj" where
  "set_daily_limit l obj =
     (case obj of Saving s \<Rightarrow> Saving s | Checking c \<Rightarrow> Checking (c\<lparr>daily_withdrawal_limit := l\<rparr>))"

definition relimit :: "(nat \<Rightarrow> real) \<Rightarrow> heap \<Rightarrow> heap" where
  "relimit f h = (\<lambda>a. map_option (set_daily_limit (f a)) (h a))"

subsection \<open>Card\<close>

text \<open>
  The getter \<open>isActivated()\<close> is the selector of the member \<open>isActivated_\<close>. The member
  \<open>isExpired_\<close> is \<open>isExpired_flag\<close>: the member function \<open>isExpired()\<close> compares dates
  and does not read it.
\<close>

record Card =
  card_number :: string
  expiration :: string
  cvv :: string
  isActivated :: bool
  isExpired_flag :: bool

definition setActivated :: "bool \<Rightarrow> 'a Card_scheme \<Rightarrow> 'a Card_scheme" where
  "setActivated isActivate c = c\<lparr>isActivated := isActivate\<rparr>"

definition Card_validate :: "'a Card_scheme \<Rightarrow> bool" where
  "Card_validate c =
     (if card_number c = [] \<or> card_number c = ''NONE'' then False
      else if expiration c = [] \<or> expiration c = ''NONE'' then False
      else if cvv c = [] \<or> cvv c = ''None'' then False
      else True)"

definition markExpired :: "'a Card_scheme \<Rightarrow> 'a Card_scheme" where
  "markExpired c = setActivated False (c\<lparr>expiration := ''00/00'', isExpired_flag := True\<rparr>)"

definition setCardNumber :: "string \<Rightarrow> 'a Card_scheme \<Rightarrow> 'a Card_scheme" where
  "setCardNumber number c = c\<lparr>card_number := number\<rparr>"

definition setExpiration :: "string \<Rightarrow> 'a Card_scheme \<Rightarrow> 'a Card_scheme" where
  "setExpiration e c = c\<lparr>expiration := e\<rparr>"

definition setCvv :: "string \<Rightarrow> 'a Card_scheme \<Rightarrow> 'a Card_scheme" where
  "setCvv v c = c\<lparr>cvv := v\<rparr>"

text \<open>
  Random bytes and the calendar are inputs. \<open>generateExpiryDate\<close> takes the current year
  (\<open>tm_year + 1900\<close>) and the byte it draws for the month; \<open>generateCVV\<close> takes the first of
  its three bytes, or \<open>None\<close> when \<open>RAND_bytes\<close> fails.
\<close>

definition two_digits :: "nat \<Rightarrow> string" where
  "two_digits n = (if n < 10 then CHR ''0'' # string_of_nat n else string_of_nat n)"

definition generateExpiryDate :: "nat \<Rightarrow> 8 word \<Rightarrow> nat \<Rightarrow> string" where
  "generateExpiryDate current_year month_byte validYears =
     (let month = 1 + unat month_byte mod 12;
          year = (current_year + validYears) mod 100
      in two_digits month @ ''/'' @ two_digits year)"

definition generateCVV :: "8 word option \<Rightarrow> exn + string" where
  "generateCVV r =
     (case r of
        None \<Rightarrow> Inl (runtime_error ''Failed to generate secure CVV'')
      | Some b \<Rightarrow> Inr (to_string (100 + int (unat b mod 900))))"

definition Card_default :: Card where
  "Card_default =
     \<lparr>card_number = ''NONE'', expiration = ''NONE'', cvv = ''None'', isActivated = False,
      isExpired_flag = False\<rparr>"

text \<open>
  The constructor Card(isActivated, isExpired). It calls \<open>generateExpiryDate\<close>, which reads
  the year and draws the byte \<open>month_byte\<close>, only for a card that is not expired.
\<close>

definition Card_flags :: "bool \<Rightarrow> bool \<Rightarrow> nat \<Rightarrow> 8 word \<Rightarrow> Card" where
  "Card_flags activated expired current_year month_byte =
     \<lparr>card_number = ''NONE'',
      expiration = (if \<not> expired then generateExpiryDate current_year month_byte 3 else ''00/00''),
      cvv = ''000'', isActivated = activated, isExpired_flag = expired\<rparr>"

subsection \<open>CardGenerator\<close>

definition isdigit :: "char \<Rightarrow> bool" where
  "isdigit ch = (48 \<le> (of_char ch :: nat) \<and> (of_char ch :: nat) \<le> 57)"

text \<open>A \<open>char\<close> read as a number is signed, as on the platforms the program is built for.\<close>

definition char_val :: "char \<Rightarrow> int" where
  "char_val ch = (if (of_char ch :: nat) < 128 then of_char ch else of_char ch - 256)"

text \<open>The remainder of C++ on a positive divisor: it has the sign of the dividend.\<close>

definition cpp_rem :: "int \<Rightarrow> int \<Rightarrow> int" where
  "cpp_rem a b = (if 0 \<le> a then a mod b else - ((- a) mod b))"

text \<open>The loop of calculateLuhn over the reversed number, with its two variables (\<open>sum\<close> is
  \<open>acc\<close>).\<close>

fun luhn_loop :: "string \<Rightarrow> int \<Rightarrow> bool \<Rightarrow> int" where
  "luhn_loop [] acc alternate = acc"
| "luhn_loop (ch # rest) acc alternate =
     (let n = char_val ch - 48;
          n = (if alternate
               then (let n2 = n * 2 in if n2 > 9 then (n2 div 10) + (n2 mod 10) else n2)
               else n)
      in luhn_loop rest (acc + n) (\<not> alternate))"

definition calculateLuhn :: "string \<Rightarrow> char" where
  "calculateLuhn number =
     char_of (48 + cpp_rem (10 - cpp_rem (luhn_loop (rev number) 0 False) 10) 10)"

text \<open>
  \<open>generate\<close> reads the random bytes \<open>rnd 0, rnd 1, ...\<close> when \<open>RAND_bytes\<close> succeeds
  (\<open>rand_ok\<close>). A prefix of more than 15 characters asks for a vector of negative length,
  which throws \<open>std::length_error\<close>. The registry \<open>issued_numbers_\<close> is passed in and out.
\<close>

definition generate ::
  "string \<Rightarrow> (nat \<Rightarrow> 8 word) \<Rightarrow> bool \<Rightarrow> string set \<Rightarrow> (exn + string) \<times> string set" where
  "generate bin_prefix rnd rand_ok issued =
     (if \<not> list_all isdigit bin_prefix
        then (Inl (invalid_argument ''BIN must contain only digits''), issued)
      else
        let remaining_length = 16 - int (length bin_prefix) - 1
        in if remaining_length < 0
             then (Inl (length_error ''cannot create std::vector larger than max_size()''), issued)
           else if \<not> rand_ok
             then (Inl (runtime_error ''Secure random generation failed''), issued)
           else
             let rand_bytes = map rnd [0..<nat remaining_length];
                 number = bin_prefix @ map (\<lambda>b. digit_char (unat b mod 10)) rand_bytes;
                 number = number @ [calculateLuhn number]
             in (Inr number, insert number issued))"

definition CardGenerator_validate :: "string \<Rightarrow> string set \<Rightarrow> bool" where
  "CardGenerator_validate number issued =
     (if length number < 13 \<or> length number > 19 then False
      else
        let base = take (length number - 1) number;
            actual_check = last number;
            calculated_check = calculateLuhn base
        in actual_check = calculated_check \<and> number \<in> issued)"

text \<open>
  The standard Luhn check of a complete number, for comparison: counting from the right and
  starting with the check digit itself, every second digit is doubled (a doubled digit above
  9 gives the sum of its two digits), and the total is a multiple of 10.
\<close>

definition luhn_double :: "nat \<Rightarrow> nat" where
  "luhn_double d = (if 2 * d > 9 then 2 * d - 9 else 2 * d)"

fun luhn_sum_standard :: "nat list \<Rightarrow> nat" where
  "luhn_sum_standard [] = 0"
| "luhn_sum_standard [d] = d"
| "luhn_sum_standard (d # e # ds) = d + luhn_double e + luhn_sum_standard ds"

definition luhn_standard_valid :: "string \<Rightarrow> bool" where
  "luhn_standard_valid number =
     (list_all isdigit number \<and>
      luhn_sum_standard (map (\<lambda>ch. of_char ch - 48) (rev number)) mod 10 = 0)"

subsection \<open>DebitCard\<close>

text \<open>
  \<open>SecurityHelper::hashPin\<close> is SHA-256 of the salt followed by the PIN, computed by the
  cryptographic library: it is the parameter \<open>hashPin\<close>, any function of the PIN and the salt.
  The member \<open>daily_withdrawal_limit_\<close> of the card is \<open>card_daily_withdrawal_limit\<close>.
\<close>

record DebitCard = Card +
  salt :: string
  pin_hash :: string
  card_daily_withdrawal_limit :: real
  daily_spend_amount :: real
  contactless_enable :: bool
  failed_attempts :: int
  linked_debit_card_account :: "nat option"
  pin :: string

definition verifyPin :: "(string \<Rightarrow> string \<Rightarrow> string) \<Rightarrow> string \<Rightarrow> DebitCard \<Rightarrow> bool \<times> DebitCard" where
  "verifyPin hashPin attempt c =
     (if failed_attempts c \<ge> 3 then (False, c)
      else
        let attempt_hash = hashPin attempt (salt c)
        in if attempt_hash \<noteq> pin_hash c then
             let c1 = c\<lparr>failed_attempts := failed_attempts c + 1\<rparr>
             in if failed_attempts c1 \<ge> 3 then (False, setActivated False c1) else (False, c1)
           else (True, c\<lparr>failed_attempts := 0\<rparr>))"

text \<open>\<open>setPin\<close> draws a salt of 16 random bytes: \<open>new_salt\<close>, or \<open>None\<close> when drawing fails.\<close>

definition setPin ::
  "(string \<Rightarrow> string \<Rightarrow> string) \<Rightarrow> string option \<Rightarrow> string \<Rightarrow> DebitCard \<Rightarrow> (exn + bool) \<times> DebitCard" where
  "setPin hashPin new_salt p c =
     (if length p < 4 \<or> length p > 6 then (Inr False, c)
      else (case new_salt of
              None \<Rightarrow> (Inl (runtime_error ''Failed to generate secure salt''), c)
            | Some sl \<Rightarrow> (Inr True, c\<lparr>salt := sl, pin_hash := hashPin p sl\<rparr>)))"

definition changePin ::
  "(string \<Rightarrow> string \<Rightarrow> string) \<Rightarrow> string option \<Rightarrow> string \<Rightarrow> string \<Rightarrow> DebitCard
     \<Rightarrow> (exn + bool) \<times> DebitCard" where
  "changePin hashPin new_salt old_pin new_pin c =
     (case verifyPin hashPin old_pin c of
        (ok, c1) \<Rightarrow>
          if \<not> ok then (Inr False, c1)
          else (case setPin hashPin new_salt new_pin c1 of
                  (Inl e, c2) \<Rightarrow> (Inl e, c2)
                | (Inr changed, c2) \<Rightarrow> if changed then (Inr True, c2) else (Inr False, c2)))"

definition enableContactless :: "bool \<Rightarrow> DebitCard \<Rightarrow> DebitCard" where
  "enableContactless enable c = c\<lparr>contactless_enable := enable\<rparr>"

definition SetDailySpendAmount :: "real \<Rightarrow> DebitCard \<Rightarrow> bool \<times> DebitCard" where
  "SetDailySpendAmount amount c = (True, c\<lparr>daily_spend_amount := amount\<rparr>)"

definition SetDailyWithdrawalLimit :: "real \<Rightarrow> DebitCard \<Rightarrow> bool \<times> DebitCard" where
  "SetDailyWithdrawalLimit limit c = (True, c\<lparr>card_daily_withdrawal_limit := limit\<rparr>)"

definition DebitCard_validate :: "DebitCard \<Rightarrow> bool" where
  "DebitCard_validate c = (Card_validate c \<and> pin_hash c \<noteq> [] \<and> card_daily_withdrawal_limit c > 0)"

text \<open>
  \<open>processPayment\<close> locks the weak pointer to the CheckingAccount, compares the amount with
  the balance and calls \<open>applyWithdraw\<close> on the account. It assigns to no member of the card;
  the card is returned as the call leaves it.
\<close>

definition processPayment ::
  "nat \<Rightarrow> heap \<Rightarrow> DebitCard \<Rightarrow> real \<Rightarrow> int \<Rightarrow> ((exn + bool) \<times> DebitCard \<times> heap) option" where
  "processPayment n h c amount now =
     (if \<not> isActivated c then Some (Inr False, c, h)
      else (case linked_debit_card_account c of
              None \<Rightarrow> Some (Inr False, c, h)
            | Some a \<Rightarrow>
                (case h a of
                   Some (Checking acc) \<Rightarrow>
                     if amount > getAccountBalance acc then Some (Inr False, c, h)
                     else (case applyWithdraw n h a amount now of
                             None \<Rightarrow> None
                           | Some (r, h') \<Rightarrow> Some (r, c, h'))
                 | _ \<Rightarrow> Some (Inr False, c, h))))"

text \<open>
  The member functions that assign to a member of a DebitCard, as operations. The const
  member functions other than \<open>verifyPin\<close>, and \<open>processPayment\<close>, leave the card as it is.
  An operation that throws leaves the card as it was at the throw.
\<close>

datatype card_op =
    VerifyPin string
  | SetPin "string option" string
  | ChangePin "string option" string string
  | SetActivated bool
  | MarkExpired
  | SetCardNumber string
  | SetExpiration string
  | SetCvv string
  | EnableContactless bool
  | SetSpend real
  | SetLimit real

fun card_step :: "(string \<Rightarrow> string \<Rightarrow> string) \<Rightarrow> card_op \<Rightarrow> DebitCard \<Rightarrow> DebitCard" where
  "card_step hashPin (VerifyPin attempt) c = snd (verifyPin hashPin attempt c)"
| "card_step hashPin (SetPin new_salt p) c = snd (setPin hashPin new_salt p c)"
| "card_step hashPin (ChangePin new_salt old_pin new_pin) c =
     snd (changePin hashPin new_salt old_pin new_pin c)"
| "card_step hashPin (SetActivated b) c = setActivated b c"
| "card_step hashPin MarkExpired c = markExpired c"
| "card_step hashPin (SetCardNumber number) c = setCardNumber number c"
| "card_step hashPin (SetExpiration e) c = setExpiration e c"
| "card_step hashPin (SetCvv v) c = setCvv v c"
| "card_step hashPin (EnableContactless b) c = enableContactless b c"
| "card_step hashPin (SetSpend x) c = snd (SetDailySpendAmount x c)"
| "card_step hashPin (SetLimit x) c = snd (SetDailyWithdrawalLimit x c)"

fun card_run :: "(string \<Rightarrow> string \<Rightarrow> string) \<Rightarrow> card_op list \<Rightarrow> DebitCard \<Rightarrow> DebitCard" where
  "card_run hashPin [] c = c"
| "card_run hashPin (x # xs) c = card_run hashPin xs (card_step hashPin x c)"

text \<open>
  The constructor DebitCard(account, daily_withdrawal_limit, pin). Its inputs from the
  environment: the year and the byte for the expiry month, the bytes for the digits of the
  card number (\<open>None\<close> where drawing fails), \<open>RAND_status\<close>, and the salts of the two calls
  of \<open>setPin\<close>. The registry of issued numbers is passed in and out.
\<close>

record DebitCard_env =
  current_year :: nat
  expiry_byte :: "8 word"
  digit_bytes :: "nat \<Rightarrow> 8 word option"
  rand_status :: bool
  first_salt :: "string option"
  second_salt :: "string option"

fun draw_digits :: "(nat \<Rightarrow> 8 word option) \<Rightarrow> nat \<Rightarrow> nat \<Rightarrow> string \<Rightarrow> exn + string" where
  "draw_digits rnd i 0 cardNumber = Inr cardNumber"
| "draw_digits rnd i (Suc k) cardNumber =
     (case rnd i of
        None \<Rightarrow> Inl (runtime_error ''Failed to generate secure random digit'')
      | Some digit \<Rightarrow> draw_digits rnd (Suc i) k (cardNumber @ [digit_char (unat digit mod 10)]))"

definition generateCardNumberWithPrefix :: "(nat \<Rightarrow> 8 word option) \<Rightarrow> string \<Rightarrow> exn + string" where
  "generateCardNumberWithPrefix rnd prefix = draw_digits rnd 0 (16 - length prefix) prefix"

definition check_pin_hash :: "DebitCard \<Rightarrow> exn + DebitCard" where
  "check_pin_hash c =
     (if pin_hash c = [] then Inl (runtime_error ''PIN hash empty after constructor'') else Inr c)"

definition DebitCard_new ::
  "(string \<Rightarrow> string \<Rightarrow> string) \<Rightarrow> DebitCard_env \<Rightarrow> nat option \<Rightarrow> real \<Rightarrow> string \<Rightarrow> string set
     \<Rightarrow> (exn + DebitCard) \<times> string set" where
  "DebitCard_new hashPin env acc limit p issued =
     (let c0 = Card.extend (Card_flags True False (current_year env) (expiry_byte env))
                 (DebitCard.fields [] [] limit 0 True 0 acc [])
      in case generateCardNumberWithPrefix (digit_bytes env) ''4'' of
           Inl e \<Rightarrow> (Inl e, issued)
         | Inr generatedNumber \<Rightarrow>
             let c1 = setCardNumber generatedNumber c0
             in if \<not> rand_status env
                  then (Inl (runtime_error ''Insufficient entropy for secure operations''), issued)
                else (case setPin hashPin (first_salt env) p c1 of
                        (Inl e, c2) \<Rightarrow> (Inl e, issued)
                      | (Inr True, c2) \<Rightarrow> (check_pin_hash c2, issued)
                      | (Inr False, c2) \<Rightarrow>
                          (case setPin hashPin (second_salt env) ''0000'' c2 of
                             (Inl e, c3) \<Rightarrow> (Inl e, issued)
                           | (Inr True, c3) \<Rightarrow> (check_pin_hash c3, issued)
                           | (Inr False, c3) \<Rightarrow>
                               (Inl (runtime_error ''Failed to set default PIN''), issued))))"

subsection \<open>CreditCard\<close>

record CreditCard = Card +
  credit_limit :: real
  current_balance :: real
  linked_account :: "nat option"
  credit_contactless_enable :: bool

text \<open>
  The constructor CreditCard(credit_limit, isActivated, linked_account) initialises its base
  with \<open>Card("5", true)\<close>. Card has two constructors of two arguments,
  \<open>Card(const std::string&, bool)\<close> and \<open>Card(bool, bool)\<close>; the string literal converts to
  \<open>bool\<close> by a standard conversion (a pointer that is not null is \<open>true\<close>) and to
  \<open>std::string\<close> by a user-defined one, so overload resolution selects \<open>Card(bool, bool)\<close>:
  the base is \<open>Card(true, true)\<close>, which draws nothing (the byte given to \<open>Card_flags\<close> is
  not read for an expired card) and does not call \<open>CardGenerator::generate\<close>. The body of the constructor then sets the activation flag, the
  number, the CVV and the expiration. Its inputs from the environment: the year, the fifteen
  values that \<open>Card::generateCardNumber\<close> draws from its distribution on 0..9, the first byte
  of \<open>generateCVV\<close> (\<open>None\<close> when \<open>RAND_bytes\<close> fails) and the byte of
  \<open>generateExpiryDate\<close>. The registry of issued numbers is passed in and out.
\<close>

record CreditCard_env =
  year_now :: nat
  dist :: "nat \<Rightarrow> nat"
  cvv_byte :: "8 word option"
  credit_expiry_byte :: "8 word"

definition generateCardNumber :: "(nat \<Rightarrow> nat) \<Rightarrow> string \<Rightarrow> string" where
  "generateCardNumber d prefix = prefix @ concat (map (\<lambda>i. to_string (int (d i))) [0..<15])"

definition CreditCard_new ::
  "CreditCard_env \<Rightarrow> real \<Rightarrow> bool \<Rightarrow> nat option \<Rightarrow> string set \<Rightarrow> (exn + CreditCard) \<times> string set" where
  "CreditCard_new env limit activated linked issued =
     (let c0 = Card.extend (Card_flags True True (year_now env) 0)
                 (CreditCard.fields limit 0 linked False);
          c1 = setActivated activated c0;
          c2 = setCardNumber (generateCardNumber (dist env) ''5'') c1
      in (case generateCVV (cvv_byte env) of
            Inl e \<Rightarrow> (Inl e, issued)
          | Inr v \<Rightarrow>
              (Inr (setExpiration (generateExpiryDate (year_now env) (credit_expiry_byte env) 3)
                      (setCvv v c2)), issued)))"

subsection \<open>Customers and Services::closeAccount\<close>

text \<open>
  A \<open>shared_ptr\<close> in the lists of Customers and Services is the object it points to:
  \<open>closeAccount\<close> reads only the account number, which never changes. An entry of
  \<open>customers_\<close> or \<open>all_accounts_\<close> may be null (\<open>None\<close>); the entries of a customer's
  \<open>account_\<close> are not null. The credit cards of a customer are left out.
\<close>

record Customers =
  customers_name :: string
  customers_email :: string
  customers_phone_number :: string
  customers_id :: string
  customers_age :: int
  customers_address :: string
  accounts :: "int list"
  account_list :: "account_obj list"

definition removeAccount :: "int \<Rightarrow> Customers \<Rightarrow> bool \<times> Customers" where
  "removeAccount n c =
     (let kept = filter (\<lambda>acc. number_of acc \<noteq> n) (account_list c)
      in if length kept \<noteq> length (account_list c) then (True, c\<lparr>account_list := kept\<rparr>)
         else (False, c))"

record Services =
  customers :: "Customers option list"
  all_accounts :: "account_obj option list"

text \<open>The first loop of closeAccount, with its variable \<open>unlinked\<close>.\<close>

fun unlink_all :: "int \<Rightarrow> Customers option list \<Rightarrow> bool \<Rightarrow> Customers option list \<times> bool" where
  "unlink_all n [] unlinked = ([], unlinked)"
| "unlink_all n (None # rest) unlinked =
     (case unlink_all n rest unlinked of (rest', u) \<Rightarrow> (None # rest', u))"
| "unlink_all n (Some c # rest) unlinked =
     (case removeAccount n c of
        (removed, c') \<Rightarrow>
          (case unlink_all n rest (if removed then True else unlinked) of
             (rest', u) \<Rightarrow> (Some c' # rest', u)))"

text \<open>\<open>std::find_if\<close> followed by \<open>erase\<close>: the list without its first match, if there is one.\<close>

fun erase_first :: "('a \<Rightarrow> bool) \<Rightarrow> 'a list \<Rightarrow> 'a list option" where
  "erase_first P [] = None"
| "erase_first P (x # xs) =
     (if P x then Some xs else (case erase_first P xs of None \<Rightarrow> None | Some ys \<Rightarrow> Some (x # ys)))"

definition closeAccount :: "int \<Rightarrow> Services \<Rightarrow> bool \<times> Services" where
  "closeAccount account_no s =
     (case unlink_all account_no (customers s) False of
        (cs, unlinked) \<Rightarrow>
          let s1 = s\<lparr>customers := cs\<rparr>
          in if \<not> unlinked then (False, s1)
             else (case erase_first
                          (\<lambda>acc. case acc of None \<Rightarrow> False | Some a \<Rightarrow> number_of a = account_no)
                          (all_accounts s1) of
                     None \<Rightarrow> (False, s1)
                   | Some rest \<Rightarrow> (True, s1\<lparr>all_accounts := rest\<rparr>)))"

subsection \<open>Example objects\<close>

definition overdrawn :: BankAccount where
  "overdrawn = BankAccount_restore 1001 (- 50) ''CHECKING''"

definition funded :: BankAccount where
  "funded = BankAccount_restore 1002 100 ''CHECKING''"

definition saving600 :: SavingAccount where
  "saving600 = SavingAccount_restore 2001 600 ''cust-1''"

definition saving600_capped :: SavingAccount where
  "saving600_capped = saving600\<lparr>withdrawal_times_this_month := 6\<rparr>"

definition checking100 :: CheckingAccount where
  "checking100 = CheckingAccount_new 50 10 1500 500 100 3001"












definition saving500 :: SavingAccount where
  "saving500 = SavingAccount_restore 2003 500 ''cust-1''"

text \<open>A stand-in for the hash in examples: the salt followed by the PIN.\<close>

definition plain_hash :: "string \<Rightarrow> string \<Rightarrow> string" where
  "plain_hash p sl = sl @ p"

text \<open>
  The inputs of a DebitCard constructor from the environment, and the card that the
  constructor builds from them for the account at address 1, the limit 500 and the PIN 1234
  (under \<open>plain_hash\<close>).
\<close>

definition debit_env :: DebitCard_env where
  "debit_env =
     \<lparr>current_year = 2026, expiry_byte = 6, digit_bytes = (\<lambda>i. Some 0), rand_status = True,
      first_salt = Some ''s'', second_salt = Some ''t''\<rparr>"

definition card4 :: DebitCard where
  "card4 =
     \<lparr>card_number = ''4000000000000000'', expiration = ''07/29'', cvv = ''000'',
      isActivated = True, isExpired_flag = False, salt = ''s'', pin_hash = ''s1234'',
      card_daily_withdrawal_limit = 500, daily_spend_amount = 0, contactless_enable = True,
      failed_attempts = 0, linked_debit_card_account = Some 1, pin = []\<rparr>"

definition checking1000 :: CheckingAccount where
  "checking1000 = CheckingAccount_new 0 10 1500 500 1000 3002"

definition heap_card :: heap where
  "heap_card = Map.empty(1 \<mapsto> Checking checking1000)"

definition customer_a :: Customers where
  "customer_a =
     \<lparr>customers_name = ''ALICE'', customers_email = ''alice@example.com'',
      customers_phone_number = ''5550100'', customers_id = ''id-a'', customers_age = 30,
      customers_address = ''1 MAIN ST'', accounts = [],
      account_list = [Saving saving600, Checking checking100]\<rparr>"

text \<open>A customer registry in which account 2001 is owned but missing from the registry of accounts.\<close>

definition services_unregistered :: Services where
  "services_unregistered =
     \<lparr>customers = [Some customer_a], all_accounts = [Some (Checking checking100)]\<rparr>"

text \<open>
  The inputs of a CreditCard constructor from the environment, and the card that the
  constructor builds from them with the limit 1000, activated, for the account at address 1.
\<close>

definition credit_env :: CreditCard_env where
  "credit_env =
     \<lparr>year_now = 2026, dist = (\<lambda>i. 0), cvv_byte = Some 45, credit_expiry_byte = 7\<rparr>"

definition card5 :: CreditCard where
  "card5 =
     \<lparr>card_number = ''5000000000000000'', expiration = ''08/29'', cvv = ''145'',
      isActivated = True, isExpired_flag = True, credit_limit = 1000, current_balance = 0,
      linked_account = Some 1, credit_contactless_enable = False\<rparr>"

section \<open>Results\<close>

subsection \<open>Rounding to a double\<close>

lemma round_even_of_int: "round_even (of_int j) = j"
  by (simp add: round_even_def)

lemma round_even_nonpos: "y \<le> 0 \<Longrightarrow> round_even y \<le> 0"
proof -
  assume y: "y \<le> 0"
  then have f: "\<lfloor>y\<rfloor> \<le> 0" by (simp add: floor_le_zero)
  show ?thesis
  proof (cases "\<lfloor>y\<rfloor> = 0")
    case True
    then have "0 \<le> y" using of_int_floor_le [of y] by simp
    with y have "y = 0" by simp
    then show ?thesis by (simp add: round_even_def)
  next
    case False
    with f have "\<lfloor>y\<rfloor> + 1 \<le> 0" by linarith
    with f show ?thesis unfolding round_even_def Let_def by auto
  qed
qed

text \<open>The rounding of a real that is not positive is not positive.\<close>

lemma fl_nonpos: "y \<le> 0 \<Longrightarrow> fl y \<le> 0"
proof -
  assume y: "y \<le> 0"
  let ?u = "(2::real) powr of_int (ulp_exponent y)"
  have u: "0 < ?u" by simp
  with y have "y / ?u \<le> 0" by (simp add: divide_nonpos_pos)
  then have "round_even (y / ?u) \<le> 0" by (rule round_even_nonpos)
  then have "of_int (round_even (y / ?u)) * ?u \<le> 0"
    using u by (simp add: mult_le_0_iff)
  then show ?thesis by (simp add: fl_def)
qed

lemma round_even_ge: "of_int m \<le> y \<Longrightarrow> m \<le> round_even y"
proof -
  assume "of_int m \<le> y"
  then have "m \<le> \<lfloor>y\<rfloor>" by (simp add: le_floor_iff)
  moreover have "\<lfloor>y\<rfloor> \<le> round_even y" by (simp add: round_even_def Let_def)
  ultimately show ?thesis by linarith
qed

text \<open>The rounding of a real that is at least 500 is at least 500.\<close>

lemma fl_ge_500:
  assumes "500 \<le> x"
  shows "500 \<le> fl x"
proof -
  define L where "L = \<lfloor>log 2 \<bar>x\<bar>\<rfloor>"
  have x: "0 < x" "\<bar>x\<bar> = x" using assms by simp_all
  have "(2::real) powr 8 \<le> x" using assms by simp
  then have "8 \<le> log 2 x" using x(1) by (subst le_log_iff) simp_all
  then have L8: "8 \<le> L" unfolding L_def x(2) by (simp add: le_floor_iff)
  have e: "ulp_exponent x = L - 52"
    using L8 by (simp add: ulp_exponent_def L_def [symmetric])
  define u where "u = (2::real) powr of_int (L - 52)"
  have u: "0 < u" by (simp add: u_def)
  have "of_int L \<le> log 2 x" unfolding L_def x(2) by simp
  then have lo: "2 powr of_int L \<le> x" using x(1) by (subst (asm) le_log_iff) simp_all
  have fl: "fl x = of_int (round_even (x / u)) * u"
    using x(1) by (simp add: fl_def e u_def)
  show ?thesis
  proof (cases "L \<le> 54")
    case True
    define j where "j = nat (54 - L)"
    have uj: "u = 4 / 2 ^ j"
    proof -
      have "of_int (L - 52) = 2 - real j" using True by (simp add: j_def)
      then have "u = 2 powr (2 - real j)" by (simp add: u_def)
      also have "\<dots> = 2 powr 2 / 2 powr real j" by (simp add: powr_diff)
      also have "\<dots> = 4 / 2 ^ j" by (simp add: powr_realpow)
      finally show ?thesis .
    qed
    have "of_int (125 * 2 ^ j) \<le> x / u"
      using assms by (simp add: uj field_simps)
    then have "125 * 2 ^ j \<le> round_even (x / u)" by (rule round_even_ge)
    then have "real_of_int (125 * 2 ^ j) \<le> of_int (round_even (x / u))"
      by (simp only: of_int_le_iff)
    then have "of_int (125 * 2 ^ j) * u \<le> of_int (round_even (x / u)) * u"
      using u by (simp only: mult_le_cancel_right_pos)
    moreover have "of_int (125 * 2 ^ j) * u = 500" by (simp add: uj)
    ultimately have "500 \<le> of_int (round_even (x / u)) * u" by (simp only:)
    then show ?thesis by (simp only: fl)
  next
    case False
    then have L55: "55 \<le> L" by simp
    have u1: "1 \<le> u"
      unfolding u_def using L55 by (intro ge_one_powr_ge_zero) simp_all
    have q: "2 powr of_int L / u = 2 ^ 52"
    proof -
      have "2 powr of_int L / u = 2 powr (of_int L - of_int (L - 52))"
        unfolding u_def by (simp only: powr_diff)
      also have "\<dots> = 2 powr 52" by simp
      also have "\<dots> = 2 ^ 52" by (simp only: powr_numeral)
      finally show ?thesis .
    qed
    have "2 powr of_int L / u \<le> x / u"
      using lo u by (simp only: divide_le_cancel) simp
    then have "of_int (2 ^ 52) \<le> x / u"
      unfolding q by simp
    then have "2 ^ 52 \<le> round_even (x / u)" by (rule round_even_ge)
    then have "real_of_int (2 ^ 52) \<le> of_int (round_even (x / u))"
      by (simp only: of_int_le_iff)
    then have n: "(500::real) \<le> of_int (round_even (x / u))" by simp
    then have n0: "0 \<le> real_of_int (round_even (x / u))" by simp
    have "real_of_int (round_even (x / u)) \<le> of_int (round_even (x / u)) * u"
      using mult_left_mono [OF u1 n0] by simp
    with n have "500 \<le> of_int (round_even (x / u)) * u" by linarith
    then show ?thesis by (simp only: fl)
  qed
qed

text \<open>The rounding of a real between \<open>2 ^ k\<close> and \<open>2 ^ (k + 1)\<close>, for \<open>k\<close> up to 52.\<close>

lemma ulp_exponent_binade:
  assumes "2 ^ k \<le> \<bar>x\<bar>" and "\<bar>x\<bar> < 2 ^ Suc k"
  shows "ulp_exponent x = int k - 52"
proof -
  have "(0::real) < 2 ^ k" by simp
  with assms(1) have pos: "0 < \<bar>x\<bar>" by linarith
  have "(2::real) powr of_int (int k) \<le> \<bar>x\<bar> \<and> \<bar>x\<bar> < 2 powr (of_int (int k) + 1)"
    using assms by (simp add: powr_realpow powr_add)
  with pos have "\<lfloor>log 2 \<bar>x\<bar>\<rfloor> = int k"
    by (simp add: floor_log_eq_powr_iff)
  then show ?thesis by (simp add: ulp_exponent_def)
qed

lemma fl_binade:
  assumes "2 ^ k \<le> \<bar>x\<bar>" and "\<bar>x\<bar> < 2 ^ Suc k" and "k \<le> 52"
  shows "fl x = of_int (round_even (x * 2 ^ (52 - k))) / 2 ^ (52 - k)"
proof -
  have "(0::real) < 2 ^ k" by simp
  with assms(1) have "0 < \<bar>x\<bar>" by linarith
  then have nz: "x \<noteq> 0" by simp
  have e: "ulp_exponent x = - int (52 - k)"
    using ulp_exponent_binade [OF assms(1,2)] assms(3) by simp
  have u: "(2::real) powr of_int (ulp_exponent x) = inverse (2 ^ (52 - k))"
    unfolding e by (simp add: powr_minus powr_realpow)
  show ?thesis
    using nz by (simp add: fl_def u divide_inverse)
qed

text \<open>An integer below \<open>2 ^ 53\<close> in absolute value is a double.\<close>

lemma fl_of_int:
  assumes "\<bar>m\<bar> < 2 ^ 53"
  shows "fl (of_int m) = of_int m"
proof (cases "m = 0")
  case True
  then show ?thesis by (simp add: fl_def)
next
  case False
  let ?x = "of_int m :: real"
  have pos: "1 \<le> \<bar>?x\<bar>" using False by (simp flip: of_int_abs)
  define L where "L = \<lfloor>log 2 \<bar>?x\<bar>\<rfloor>"
  have L0: "0 \<le> L" using pos by (simp add: L_def)
  have "\<bar>?x\<bar> < 2 ^ 53"
    using assms by (simp flip: of_int_abs add: of_int_less_numeral_power_cancel_iff)
  then have "\<bar>?x\<bar> < 2 powr 53" by simp
  then have "log 2 \<bar>?x\<bar> < 53" using pos by (subst log_less_iff) simp_all
  then have L52: "L \<le> 52" unfolding L_def by linarith
  define k where "k = nat (52 - L)"
  have e: "ulp_exponent ?x = - int k"
    using L0 L52 by (simp add: ulp_exponent_def L_def [symmetric] k_def)
  have u: "(2::real) powr of_int (ulp_exponent ?x) = inverse (2 ^ k)"
    unfolding e by (simp add: powr_minus powr_realpow)
  have "?x / inverse (2 ^ k) = of_int (m * 2 ^ k)"
    by (simp add: divide_inverse)
  then have "round_even (?x / inverse (2 ^ k)) = m * 2 ^ k"
    by (simp only: round_even_of_int)
  then show ?thesis
    using False by (simp add: fl_def u)
qed

lemma fl_numeral: "numeral n < (2::int) ^ 53 \<Longrightarrow> fl (numeral n) = numeral n"
  using fl_of_int [of "numeral n"] by simp


subsection \<open>BankAccount: deposit and withdrawal of the base class\<close>

lemma applyDeposit_rejects: "amount \<le> 0 \<Longrightarrow> applyDeposit a amount now = (False, a)"
  by (simp add: applyDeposit_def)

lemma applyDeposit_accepts:
  assumes "0 < amount"
  shows "\<exists>a' t. applyDeposit a amount now = (True, a')
           \<and> account_balance a' = dadd (account_balance a) amount
           \<and> transactions a' = transactions a @ [t]
           \<and> txn_type t = DEPOSIT \<and> txn_amount t = amount
           \<and> balanceAfter t = account_balance a'"
  using assms by (simp add: applyDeposit_def setLowBalance_def emplace_back_def)

lemma BankAccount_applyWithdraw_accepts:
  assumes "0 < amount" and "amount \<le> account_balance a"
  shows "\<exists>a' t. BankAccount_applyWithdraw a amount now = (Inr True, a')
           \<and> account_balance a' = dsub (account_balance a) amount
           \<and> transactions a' = transactions a @ [t]
           \<and> txn_type t = WITHDRAWAL \<and> txn_amount t = amount
           \<and> balanceAfter t = account_balance a'"
  using assms by (simp add: BankAccount_applyWithdraw_def setLowBalance_def emplace_back_def)

text \<open>
  C2 (as the code has it). applyDeposit returns false exactly when the amount is not
  positive, and then leaves the account as it is. BankAccount::applyWithdraw throws
  \<open>std::invalid_argument\<close> exactly when the amount is not positive, and the
  \<open>std::runtime_error\<close> for insufficient funds exactly when the amount is positive and above
  the balance: the test of the sign comes first. Whenever it throws, the account is as it
  was. Each operation that succeeds sets the balance to the sum or the difference as a
  double and appends exactly one transaction, DEPOSIT or WITHDRAWAL, whose balance-after is
  the new balance.
\<close>

theorem C2_base_deposit_withdraw:
  "(fst (applyDeposit a amount now) = False \<longleftrightarrow> amount \<le> 0)
   \<and> (amount \<le> 0 \<longrightarrow> snd (applyDeposit a amount now) = a)
   \<and> (fst (BankAccount_applyWithdraw a amount now)
         = Inl (invalid_argument ''Withdrawal amount must be positive'') \<longleftrightarrow> amount \<le> 0)
   \<and> (fst (BankAccount_applyWithdraw a amount now)
         = Inl (runtime_error ''Insufficient funds for withdrawal'')
       \<longleftrightarrow> 0 < amount \<and> account_balance a < amount)
   \<and> (fst (BankAccount_applyWithdraw a amount now) = Inr True
       \<longleftrightarrow> 0 < amount \<and> amount \<le> account_balance a)
   \<and> (fst (BankAccount_applyWithdraw a amount now) \<noteq> Inr True
       \<longrightarrow> snd (BankAccount_applyWithdraw a amount now) = a)
   \<and> (0 < amount \<longrightarrow>
        (\<exists>a' t. applyDeposit a amount now = (True, a')
           \<and> account_balance a' = dadd (account_balance a) amount
           \<and> transactions a' = transactions a @ [t]
           \<and> txn_type t = DEPOSIT \<and> txn_amount t = amount
           \<and> balanceAfter t = account_balance a'))
   \<and> (0 < amount \<and> amount \<le> account_balance a \<longrightarrow>
        (\<exists>a' t. BankAccount_applyWithdraw a amount now = (Inr True, a')
           \<and> account_balance a' = dsub (account_balance a) amount
           \<and> transactions a' = transactions a @ [t]
           \<and> txn_type t = WITHDRAWAL \<and> txn_amount t = amount
           \<and> balanceAfter t = account_balance a'))"
proof -
  have d1: "fst (applyDeposit a amount now) = False \<longleftrightarrow> amount \<le> 0"
    by (simp add: applyDeposit_def)
  have d2: "amount \<le> 0 \<longrightarrow> snd (applyDeposit a amount now) = a"
    by (simp add: applyDeposit_rejects)
  have w1: "fst (BankAccount_applyWithdraw a amount now)
         = Inl (invalid_argument ''Withdrawal amount must be positive'') \<longleftrightarrow> amount \<le> 0"
    by (simp add: BankAccount_applyWithdraw_def)
  have w2: "fst (BankAccount_applyWithdraw a amount now)
         = Inl (runtime_error ''Insufficient funds for withdrawal'')
       \<longleftrightarrow> 0 < amount \<and> account_balance a < amount"
    by (simp add: BankAccount_applyWithdraw_def)
  have w3: "fst (BankAccount_applyWithdraw a amount now) = Inr True
       \<longleftrightarrow> 0 < amount \<and> amount \<le> account_balance a"
    by (auto simp add: BankAccount_applyWithdraw_def)
  have w4: "fst (BankAccount_applyWithdraw a amount now) \<noteq> Inr True
       \<longrightarrow> snd (BankAccount_applyWithdraw a amount now) = a"
    by (simp add: BankAccount_applyWithdraw_def)
  show ?thesis
    using d1 d2 w1 w2 w3 w4 applyDeposit_accepts [of amount a now]
      BankAccount_applyWithdraw_accepts [of amount a now]
    by blast
qed

theorem C2_base_deposit_withdraw_witness:
  "fst (applyDeposit funded 25 7) = True
   \<and> fst (BankAccount_applyWithdraw funded 25 7) = Inr True
   \<and> account_balance (snd (BankAccount_applyWithdraw funded 25 7)) = 75
   \<and> snd (BankAccount_applyWithdraw funded 250 7) = funded
   \<and> snd (applyDeposit funded 0 7) = funded"
proof -
  have b: "account_balance funded = 100"
    by (simp add: funded_def BankAccount_restore_def setLowBalance_def)
  have pos: "(0::real) < 25" and le: "(25::real) \<le> 100" and big: "\<not> (250::real) \<le> 100"
    by simp_all
  have d: "dsub 100 25 = 75"
    by (simp add: dsub_def fl_numeral)
  from C2_base_deposit_withdraw [of funded 25 7] pos le b d
  have ok: "fst (applyDeposit funded 25 7) = True"
    "fst (BankAccount_applyWithdraw funded 25 7) = Inr True"
    "account_balance (snd (BankAccount_applyWithdraw funded 25 7)) = 75"
    by auto
  from C2_base_deposit_withdraw [of funded 250 7] big b
  have keep: "snd (BankAccount_applyWithdraw funded 250 7) = funded"
    by auto
  from C2_base_deposit_withdraw [of funded 0 7]
  have rej: "snd (applyDeposit funded 0 7) = funded"
    by auto
  from ok keep rej show ?thesis by simp
qed

text \<open>
  C2 as stated fails on an overdrawn account: with the balance at -50 the amount 0 is
  above the balance, and the call throws \<open>std::invalid_argument\<close>, not the error for
  insufficient funds.
\<close>

theorem C2_counterexample:
  "account_balance overdrawn < 0
   \<and> BankAccount_applyWithdraw overdrawn 0 7
       = (Inl (invalid_argument ''Withdrawal amount must be positive''), overdrawn)
   \<and> fst (BankAccount_applyWithdraw overdrawn 0 7)
       \<noteq> Inl (runtime_error ''Insufficient funds for withdrawal'')"
  by (simp add: overdrawn_def BankAccount_restore_def setLowBalance_def
      BankAccount_applyWithdraw_def)

subsection \<open>SavingAccount: minimum balance and the cap on withdrawals\<close>

lemma constructors_min_balance:
  "min_balance (SavingAccount_default k) = 500"
  "min_balance (SavingAccount_initial k b r now) = 500"
  "min_balance (SavingAccount_restore k b cid) = 500"
  by (simp_all add: SavingAccount_default_def SavingAccount_initial_def
      SavingAccount_restore_def BankAccount.extend_def SavingAccount.fields_def
      BankAccount_default_def BankAccount_restore_def setLowBalance_def applyDeposit_def
      emplace_back_def Let_def)

lemma operations_keep_min_balance:
  "min_balance (snd (SavingAccount_applyWithdraw s amount now)) = min_balance s"
  "min_balance (snd (applyDeposit s amount now)) = min_balance s"
  "min_balance (resetMonthlyWithdrawals s) = min_balance s"
  by (simp_all add: SavingAccount_applyWithdraw_def BankAccount_applyWithdraw_def
      applyDeposit_def resetMonthlyWithdrawals_def setLowBalance_def emplace_back_def)

lemma SavingAccount_applyWithdraw_accepts:
  assumes "withdrawal_times_this_month s < 6"
    and "0 < amount"
    and "min_balance s \<le> dsub (account_balance s) amount"
    and "amount \<le> account_balance s"
  shows "\<exists>s'. SavingAccount_applyWithdraw s amount now = (Inr True, s')
           \<and> account_balance s' = dsub (account_balance s) amount
           \<and> withdrawal_times_this_month s' = withdrawal_times_this_month s + 1"
  using assms
  by (simp add: SavingAccount_applyWithdraw_def BankAccount_applyWithdraw_def
      getAccountBalance_def setLowBalance_def emplace_back_def)

text \<open>
  A difference that rounds to at least 500 is positive: where the test of the minimum
  balance passes, the amount is within the balance.
\<close>

lemma above_minimum_within_balance:
  assumes "500 \<le> dsub b amount"
  shows "amount \<le> b"
proof (rule ccontr)
  assume "\<not> amount \<le> b"
  then have "b - amount \<le> 0" by simp
  then have "fl (b - amount) \<le> 0" by (rule fl_nonpos)
  with assms show False by (simp add: dsub_def)
qed

text \<open>
  Where the exact difference keeps the minimum balance of 500, so does the difference of the
  program.
\<close>

lemma exact_difference_keeps_minimum: "500 \<le> b - amount \<Longrightarrow> 500 \<le> dsub b amount"
  unfolding dsub_def by (rule fl_ge_500)

text \<open>
  C3 (as the code has it). A SavingAccount with fewer than 6 withdrawals in the cycle and
  the minimum balance of 500 (the value every constructor sets and no operation changes).
  The test is on the difference of the balance and the amount as the program computes it, a
  double: when that difference is below 500 the call throws the runtime error for the
  minimum balance and leaves the account, so its balance and its counter, as it was; when
  the amount is positive and that difference is at least 500, which it is whenever the
  exact difference is at least 500, the call succeeds, the balance is that difference and
  the counter is one more.
\<close>

theorem C3_saving_minimum_balance:
  assumes "withdrawal_times_this_month s < 6"
    and "min_balance s = 500"
  shows "(dsub (account_balance s) amount < 500 \<longrightarrow>
            SavingAccount_applyWithdraw s amount now
              = (Inl (runtime_error ''Withdrawal violates minimum balance requirements''), s))
       \<and> (0 < amount \<and> 500 \<le> dsub (account_balance s) amount \<longrightarrow>
            (\<exists>s'. SavingAccount_applyWithdraw s amount now = (Inr True, s')
               \<and> account_balance s' = dsub (account_balance s) amount
               \<and> withdrawal_times_this_month s' = withdrawal_times_this_month s + 1))
       \<and> (0 < amount \<and> 500 \<le> account_balance s - amount \<longrightarrow>
            (\<exists>s'. SavingAccount_applyWithdraw s amount now = (Inr True, s')
               \<and> account_balance s' = dsub (account_balance s) amount
               \<and> withdrawal_times_this_month s' = withdrawal_times_this_month s + 1))"
proof -
  have low: "dsub (account_balance s) amount < 500 \<longrightarrow>
            SavingAccount_applyWithdraw s amount now
              = (Inl (runtime_error ''Withdrawal violates minimum balance requirements''), s)"
    using assms(2) by (simp add: SavingAccount_applyWithdraw_def getAccountBalance_def)
  have high: "0 < amount \<and> 500 \<le> dsub (account_balance s) amount \<longrightarrow>
            (\<exists>s'. SavingAccount_applyWithdraw s amount now = (Inr True, s')
               \<and> account_balance s' = dsub (account_balance s) amount
               \<and> withdrawal_times_this_month s' = withdrawal_times_this_month s + 1)"
  proof
    assume h: "0 < amount \<and> 500 \<le> dsub (account_balance s) amount"
    then have "amount \<le> account_balance s" by (simp add: above_minimum_within_balance)
    with h assms show "\<exists>s'. SavingAccount_applyWithdraw s amount now = (Inr True, s')
               \<and> account_balance s' = dsub (account_balance s) amount
               \<and> withdrawal_times_this_month s' = withdrawal_times_this_month s + 1"
      by (intro SavingAccount_applyWithdraw_accepts) simp_all
  qed
  have exact: "0 < amount \<and> 500 \<le> account_balance s - amount \<longrightarrow>
            (\<exists>s'. SavingAccount_applyWithdraw s amount now = (Inr True, s')
               \<and> account_balance s' = dsub (account_balance s) amount
               \<and> withdrawal_times_this_month s' = withdrawal_times_this_month s + 1)"
    using high exact_difference_keeps_minimum [of "account_balance s" amount] by blast
  from low high exact show ?thesis by blast
qed

lemma saving600_fields:
  "account_balance saving600 = 600"
  "min_balance saving600 = 500"
  "withdrawal_times_this_month saving600 = 0"
  by (simp_all add: saving600_def SavingAccount_restore_def BankAccount_restore_def
      BankAccount.extend_def SavingAccount.fields_def setLowBalance_def)

lemma saving600_differences: "dsub 600 150 = 450" "dsub 600 90 = 510"
  by (simp_all add: dsub_def fl_numeral)

theorem C3_saving_minimum_balance_witness:
  "SavingAccount_applyWithdraw saving600 150 7
     = (Inl (runtime_error ''Withdrawal violates minimum balance requirements''), saving600)
   \<and> (\<exists>s'. SavingAccount_applyWithdraw saving600 90 7 = (Inr True, s')
          \<and> account_balance s' = 510 \<and> withdrawal_times_this_month s' = 1)"
proof -
  have c: "withdrawal_times_this_month saving600 < 6" and m: "min_balance saving600 = 500"
    by (simp_all add: saving600_fields)
  from C3_saving_minimum_balance [OF c m, of 150 7]
  have rejected: "SavingAccount_applyWithdraw saving600 150 7
     = (Inl (runtime_error ''Withdrawal violates minimum balance requirements''), saving600)"
    by (simp add: saving600_fields saving600_differences)
  from C3_saving_minimum_balance [OF c m, of 90 7]
  have accepted: "\<exists>s'. SavingAccount_applyWithdraw saving600 90 7 = (Inr True, s')
          \<and> account_balance s' = 510 \<and> withdrawal_times_this_month s' = 1"
    by (simp add: saving600_fields saving600_differences)
  from rejected accepted show ?thesis by simp
qed

text \<open>
  C3 as stated fails where the exact difference is below 500 and the difference of the
  program is not. The amount \<open>2 ^ - 70\<close> is a double; with the balance at 500 the balance
  minus the amount is below 500, and its rounding to a double is 500. The call returns true,
  the balance is still 500, the counter has gone from 0 to 1 and a WITHDRAWAL is recorded.
\<close>

lemma saving500_fields:
  "account_balance saving500 = 500"
  "min_balance saving500 = 500"
  "withdrawal_times_this_month saving500 = 0"
  "transactions saving500 = []"
  by (simp_all add: saving500_def SavingAccount_restore_def BankAccount_restore_def
      BankAccount.extend_def SavingAccount.fields_def setLowBalance_def)

lemma tiny_amount: "dsub 500 (1 / 2 ^ 70) = 500"
  unfolding dsub_def
  by (subst fl_binade [where k = 8]) (simp_all add: round_even_def)

lemma tiny_amount_double: "fl (1 / 2 ^ 70) = 1 / 2 ^ 70"
proof -
  let ?x = "1 / 2 ^ 70 :: real"
  have x: "?x = 2 powr (- 70)"
    by (simp add: powr_minus powr_realpow inverse_eq_divide flip: powr_numeral)
  have "\<lfloor>log 2 \<bar>?x\<bar>\<rfloor> = - 70"
    unfolding x by simp
  then have e: "ulp_exponent ?x = - 122"
    by (simp add: ulp_exponent_def)
  have u: "(2::real) powr of_int (- 122) = 1 / 2 ^ 122"
    by (simp add: powr_minus powr_realpow inverse_eq_divide flip: powr_numeral)
  have q: "?x / (1 / 2 ^ 122) = of_int (2 ^ 52)"
    by simp
  have "round_even (?x / (1 / 2 ^ 122)) = 2 ^ 52"
    unfolding q by (rule round_even_of_int)
  then show ?thesis
    unfolding fl_def e u by simp
qed

theorem C3_counterexample:
  "withdrawal_times_this_month saving500 < 6 \<and> min_balance saving500 = 500
   \<and> fl (1 / 2 ^ 70) = 1 / 2 ^ 70
   \<and> account_balance saving500 - 1 / 2 ^ 70 < 500
   \<and> fst (SavingAccount_applyWithdraw saving500 (1 / 2 ^ 70) 7) = Inr True
   \<and> account_balance (snd (SavingAccount_applyWithdraw saving500 (1 / 2 ^ 70) 7)) = 500
   \<and> withdrawal_times_this_month (snd (SavingAccount_applyWithdraw saving500 (1 / 2 ^ 70) 7)) = 1
   \<and> map txn_type (transactions (snd (SavingAccount_applyWithdraw saving500 (1 / 2 ^ 70) 7)))
       = [WITHDRAWAL]"
proof -
  have r: "SavingAccount_applyWithdraw saving500 (1 / 2 ^ 70) 7
     = (Inr True,
        (setLowBalance (emplace_back WITHDRAWAL (1 / 2 ^ 70) ''Withdrawal'' 7
           (saving500\<lparr>account_balance := 500\<rparr>)))\<lparr>withdrawal_times_this_month := 1\<rparr>)"
    using tiny_amount
    by (simp add: SavingAccount_applyWithdraw_def BankAccount_applyWithdraw_def
        getAccountBalance_def saving500_fields setLowBalance_def emplace_back_def)
  show ?thesis
    unfolding r using tiny_amount_double
    by (simp add: saving500_fields setLowBalance_def emplace_back_def)
qed

text \<open>
  C4. A SavingAccount whose counter has reached 6: a withdrawal that the funds and the
  minimum balance would permit (its amount is positive and within the balance, and the
  difference as the program computes it keeps the minimum balance, as it does with the
  minimum balance of 500 whenever the exact difference keeps it) throws the runtime error
  for the monthly limit and leaves the account as it was; resetMonthlyWithdrawals sets the
  counter to 0, and the same withdrawal then succeeds.
\<close>

theorem C4_saving_withdrawal_cap:
  assumes "6 \<le> withdrawal_times_this_month s"
    and "0 < amount"
    and "amount \<le> account_balance s"
    and "min_balance s \<le> dsub (account_balance s) amount"
  shows "SavingAccount_applyWithdraw s amount now
           = (Inl (runtime_error ''Maximum monthly withdrawal exceeded.''), s)
       \<and> withdrawal_times_this_month (resetMonthlyWithdrawals s) = 0
       \<and> (\<exists>s'. SavingAccount_applyWithdraw (resetMonthlyWithdrawals s) amount later
                   = (Inr True, s')
              \<and> account_balance s' = dsub (account_balance s) amount
              \<and> withdrawal_times_this_month s' = 1)"
proof -
  have capped: "SavingAccount_applyWithdraw s amount now
           = (Inl (runtime_error ''Maximum monthly withdrawal exceeded.''), s)"
    using assms by (simp add: SavingAccount_applyWithdraw_def getAccountBalance_def)
  have zero: "withdrawal_times_this_month (resetMonthlyWithdrawals s) = 0"
    by (simp add: resetMonthlyWithdrawals_def)
  have again: "\<exists>s'. SavingAccount_applyWithdraw (resetMonthlyWithdrawals s) amount later
                   = (Inr True, s')
              \<and> account_balance s' = dsub (account_balance (resetMonthlyWithdrawals s)) amount
              \<and> withdrawal_times_this_month s'
                  = withdrawal_times_this_month (resetMonthlyWithdrawals s) + 1"
    using assms by (intro SavingAccount_applyWithdraw_accepts)
      (simp_all add: resetMonthlyWithdrawals_def)
  from capped zero again show ?thesis by (simp add: resetMonthlyWithdrawals_def)
qed

theorem C4_saving_withdrawal_cap_witness:
  "SavingAccount_applyWithdraw saving600_capped 90 7
     = (Inl (runtime_error ''Maximum monthly withdrawal exceeded.''), saving600_capped)
   \<and> (\<exists>s'. SavingAccount_applyWithdraw (resetMonthlyWithdrawals saving600_capped) 90 8
              = (Inr True, s')
          \<and> account_balance s' = 510)"
proof -
  have f: "account_balance saving600_capped = 600" "min_balance saving600_capped = 500"
    "withdrawal_times_this_month saving600_capped = 6"
    by (simp_all add: saving600_capped_def saving600_fields)
  have a1: "6 \<le> withdrawal_times_this_month saving600_capped" by (simp add: f)
  have a2: "(0::real) < 90" by simp
  have a3: "90 \<le> account_balance saving600_capped" by (simp add: f)
  have a4: "min_balance saving600_capped \<le> dsub (account_balance saving600_capped) 90"
    by (simp add: f saving600_differences)
  from C4_saving_withdrawal_cap [OF a1 a2 a3 a4, of 7 8] show ?thesis
    by (auto simp add: f saving600_differences)
qed

subsection \<open>CheckingAccount: withdrawal, overdraft and overdraft protection\<close>

lemma settle_withdrawal_fields:
  "account_balance (settle_withdrawal b amount now c) = b"
  "overdraft_limit (settle_withdrawal b amount now c) = overdraft_limit c"
  "monthly_transaction_count (settle_withdrawal b amount now c) = monthly_transaction_count c + 1"
  "daily_withdrawal_limit (settle_withdrawal b amount now c) = daily_withdrawal_limit c"
  "transactions (settle_withdrawal b amount now c) = transactions c @
     [\<lparr>accountNumber = to_string (account_number c), txn_type = WITHDRAWAL, txn_amount = amount,
       balanceAfter = b, description = [], timestamp = now\<rparr>]"
  by (simp_all add: settle_withdrawal_def setLowBalance_def count_transaction_def
      addTransaction_def emplace_back_def setBalanceInternal_def)

lemma applyWithdraw_within_available:
  assumes "h p = Some (Checking c)"
    and "0 < amount"
    and "amount \<le> dadd (account_balance c) (overdraft_limit c)"
  shows "applyWithdraw (Suc n) h p amount now
           = Some (Inr True,
               h(p \<mapsto> Checking (settle_withdrawal (dsub (account_balance c) amount) amount now c)))"
  using assms by (simp add: applyWithdraw.simps getAccountBalance_def)















subsection \<open>The daily withdrawal limit is not consulted\<close>

lemma settle_withdrawal_limit:
  "settle_withdrawal b amount now (c\<lparr>daily_withdrawal_limit := l\<rparr>)
     = (settle_withdrawal b amount now c)\<lparr>daily_withdrawal_limit := l\<rparr>"
  by (simp add: settle_withdrawal_def setLowBalance_def count_transaction_def
      addTransaction_def emplace_back_def setBalanceInternal_def)

lemma relimit_upd:
  "relimit f (h(p \<mapsto> obj)) = (relimit f h)(p \<mapsto> set_daily_limit (f p) obj)"
  by (rule ext) (simp add: relimit_def)

lemma relimit_Checking:
  "h p = Some (Checking c) \<Longrightarrow>
     relimit f h p = Some (Checking (c\<lparr>daily_withdrawal_limit := f p\<rparr>))"
  by (simp add: relimit_def set_daily_limit_def)

lemma relimit_Saving: "h p = Some (Saving s) \<Longrightarrow> relimit f h p = Some (Saving s)"
  by (simp add: relimit_def set_daily_limit_def)

lemma relimit_None: "h p = None \<Longrightarrow> relimit f h p = None"
  by (simp add: relimit_def)

lemma lock_relimit: "lock (relimit f h) w = lock h w"
  by (cases w) (auto simp add: lock_def relimit_def split: option.splits)

lemma modify_checking_relimit:
  "modify_checking p (\<lambda>c1. settle_withdrawal (- overdraft_limit c1) amount now c1) (relimit f h)
     = relimit f
         (modify_checking p (\<lambda>c1. settle_withdrawal (- overdraft_limit c1) amount now c1) h)"
proof (cases "h p")
  case None
  then show ?thesis by (simp add: modify_checking_def relimit_None)
next
  case (Some obj)
  show ?thesis
  proof (cases obj)
    case (Saving s)
    with Some show ?thesis by (simp add: modify_checking_def relimit_Saving)
  next
    case (Checking c)
    with Some show ?thesis
      by (simp add: modify_checking_def relimit_Checking relimit_upd set_daily_limit_def
          settle_withdrawal_limit)
  qed
qed

lemma balance_of_set_daily_limit: "balance_of (set_daily_limit l obj) = balance_of obj"
  by (cases obj) (simp_all add: set_daily_limit_def balance_of_def getAccountBalance_def)

text \<open>CheckingAccount::applyWithdraw with its local variables substituted.\<close>

lemma applyWithdraw_Checking:
  assumes "h p = Some (Checking c)"
  shows "applyWithdraw (Suc n) h p amount now =
     (if amount \<le> 0 then Some (Inr False, h)
      else if dadd (account_balance c) (overdraft_limit c) < amount then
        (if \<not> has_overdraft_protection c then Some (Inr False, h)
         else (case lock h (overdraft_backup_account c) of
                 None \<Rightarrow> Some (Inr False, h)
               | Some backup \<Rightarrow>
                   (case applyWithdraw n h backup
                           (dsub amount (dadd (account_balance c) (overdraft_limit c))) now of
                      None \<Rightarrow> None
                    | Some (Inl e, h1) \<Rightarrow> Some (Inl e, h1)
                    | Some (Inr ok, h1) \<Rightarrow>
                        if \<not> ok then Some (Inr False, h1)
                        else Some (Inr True,
                          modify_checking p
                            (\<lambda>c1. settle_withdrawal (- overdraft_limit c1) amount now c1) h1))))
      else Some (Inr True,
        h(p \<mapsto> Checking (settle_withdrawal (dsub (account_balance c) amount) amount now c))))"
  using assms
  by (simp add: applyWithdraw.simps getAccountBalance_def Let_def cong: option.case_cong)

lemma applyWithdraw_relimit:
  "applyWithdraw n (relimit f h) p amount now
     = map_option (\<lambda>(r, h'). (r, relimit f h')) (applyWithdraw n h p amount now)"
proof (induction n arbitrary: h p amount)
  case 0
  show ?case by (simp add: applyWithdraw.simps)
next
  case (Suc n)
  show ?case
  proof (cases "h p")
    case None
    then show ?thesis by (simp add: applyWithdraw.simps relimit_None)
  next
    case (Some obj)
    show ?thesis
    proof (cases obj)
      case (Saving s)
      with Some have "h p = Some (Saving s)" by simp
      then show ?thesis
        by (simp add: applyWithdraw.simps relimit_Saving relimit_upd set_daily_limit_def
            split: prod.splits)
    next
      case (Checking c)
      with Some have hp: "h p = Some (Checking c)" by simp
      let ?c = "c\<lparr>daily_withdrawal_limit := f p\<rparr>"
      let ?x = "dsub amount (dadd (account_balance c) (overdraft_limit c))"
      from hp have hp': "relimit f h p = Some (Checking ?c)" by (rule relimit_Checking)
      note L = applyWithdraw_Checking [of "relimit f h" p ?c n amount now, OF hp']
      note R = applyWithdraw_Checking [of h p c n amount now, OF hp]
      show ?thesis
      proof (cases "lock h (overdraft_backup_account c)")
        case None
        then show ?thesis
          by (simp add: L R lock_relimit relimit_upd set_daily_limit_def settle_withdrawal_limit)
      next
        case (Some q)
        show ?thesis
        proof (cases "applyWithdraw n h q ?x now")
          case None
          with Some Suc.IH [of h q ?x] show ?thesis
            by (simp add: L R lock_relimit relimit_upd set_daily_limit_def
                settle_withdrawal_limit)
        next
          case inner: (Some res)
          obtain r1 h1 where res: "res = (r1, h1)" by (cases res)
          show ?thesis
          proof (cases r1)
            case (Inl e)
            with inner res Some Suc.IH [of h q ?x] show ?thesis
              by (simp add: L R lock_relimit relimit_upd set_daily_limit_def
                  settle_withdrawal_limit)
          next
            case (Inr ok)
            with inner res Some Suc.IH [of h q ?x] show ?thesis
              by (simp add: L R lock_relimit relimit_upd set_daily_limit_def
                  settle_withdrawal_limit modify_checking_relimit)
          qed
        qed
      qed
    qed
  qed
qed

lemma processPayment_relimit:
  "processPayment n (relimit f h) (dc\<lparr>card_daily_withdrawal_limit := l\<rparr>) amount now
     = map_option (\<lambda>(r, c', h'). (r, c'\<lparr>card_daily_withdrawal_limit := l\<rparr>, relimit f h'))
         (processPayment n h dc amount now)"
proof (cases "linked_debit_card_account dc")
  case None
  then show ?thesis by (simp add: processPayment_def)
next
  case (Some a)
  show ?thesis
  proof (cases "h a")
    case None
    with Some show ?thesis by (simp add: processPayment_def relimit_None)
  next
    case obj: (Some obj)
    show ?thesis
    proof (cases obj)
      case (Saving s)
      with Some obj show ?thesis by (simp add: processPayment_def relimit_Saving)
    next
      case (Checking c)
      with obj have "h a = Some (Checking c)" by simp
      with Some show ?thesis
        by (cases "applyWithdraw n h a amount now")
          (auto simp add: processPayment_def relimit_Checking applyWithdraw_relimit
            getAccountBalance_def)
    qed
  qed
qed

lemma processPayment_card:
  assumes "processPayment n h dc amount now = Some (r, c', h')"
  shows "c' = dc"
  using assms
  by (auto simp add: processPayment_def split: if_splits option.splits account_obj.splits)

lemma processPayment_accepts:
  assumes "isActivated dc"
    and "linked_debit_card_account dc = Some p"
    and "h p = Some (Checking c)"
    and "0 < amount"
    and "amount \<le> account_balance c"
    and "amount \<le> dadd (account_balance c) (overdraft_limit c)"
  shows "processPayment (Suc n) h dc amount now
           = Some (Inr True, dc,
               h(p \<mapsto> Checking (settle_withdrawal (dsub (account_balance c) amount) amount now c)))"
  using assms
  by (simp add: processPayment_def getAccountBalance_def applyWithdraw_within_available)

text \<open>
  C10. Replace the daily withdrawal limit of every CheckingAccount in the store (by \<open>f\<close>)
  and that of the card (by \<open>l\<close>) with any other values: applyWithdraw and processPayment
  return the same value or exception, and leave stores that differ by the same replacement
  only, so every balance is the same. processPayment leaves the card, and its daily spend
  amount, as they were. Whatever the limits are, a positive withdrawal within the balance
  plus the overdraft limit (the sum as the program computes it) succeeds, and so does a
  payment that is also within the balance; the new balance is the balance minus the amount,
  as a double.
\<close>

theorem C10_daily_limit_not_enforced:
  "applyWithdraw n (relimit f h) p amount now
     = map_option (\<lambda>(r, h'). (r, relimit f h')) (applyWithdraw n h p amount now)
   \<and> processPayment n (relimit f h) (dc\<lparr>card_daily_withdrawal_limit := l\<rparr>) amount now
       = map_option (\<lambda>(r, c', h'). (r, c'\<lparr>card_daily_withdrawal_limit := l\<rparr>, relimit f h'))
           (processPayment n h dc amount now)
   \<and> map_option balance_of (relimit f h a) = map_option balance_of (h a)
   \<and> (processPayment n h dc amount now = Some (r, c', h') \<longrightarrow>
        c' = dc \<and> daily_spend_amount c' = daily_spend_amount dc)
   \<and> (h p = Some (Checking c) \<and> 0 < amount
        \<and> amount \<le> dadd (account_balance c) (overdraft_limit c)
        \<longrightarrow> (\<exists>c'. applyWithdraw (Suc n) h p amount now
                     = Some (Inr True, h(p \<mapsto> Checking c'))
               \<and> account_balance c' = dsub (account_balance c) amount))
   \<and> (isActivated dc \<and> linked_debit_card_account dc = Some p \<and> h p = Some (Checking c)
        \<and> 0 < amount \<and> amount \<le> account_balance c
        \<and> amount \<le> dadd (account_balance c) (overdraft_limit c)
        \<longrightarrow> (\<exists>c'. processPayment (Suc n) h dc amount now
                     = Some (Inr True, dc, h(p \<mapsto> Checking c'))
               \<and> account_balance c' = dsub (account_balance c) amount))"
proof -
  let ?c' = "settle_withdrawal (dsub (account_balance c) amount) amount now c"
  have bal: "map_option balance_of (relimit f h a) = map_option balance_of (h a)"
    by (cases "h a") (simp_all add: relimit_def balance_of_set_daily_limit)
  have same: "processPayment n h dc amount now = Some (r, c', h') \<longrightarrow>
        c' = dc \<and> daily_spend_amount c' = daily_spend_amount dc"
    using processPayment_card [of n h dc amount now r c' h'] by blast
  have b': "account_balance ?c' = dsub (account_balance c) amount"
    by (simp add: settle_withdrawal_fields(1))
  have w: "h p = Some (Checking c) \<and> 0 < amount
        \<and> amount \<le> dadd (account_balance c) (overdraft_limit c)
        \<longrightarrow> (\<exists>c'. applyWithdraw (Suc n) h p amount now
                     = Some (Inr True, h(p \<mapsto> Checking c'))
               \<and> account_balance c' = dsub (account_balance c) amount)"
    using applyWithdraw_within_available [of h p c amount n now] b' by blast
  have pay: "isActivated dc \<and> linked_debit_card_account dc = Some p \<and> h p = Some (Checking c)
        \<and> 0 < amount \<and> amount \<le> account_balance c
        \<and> amount \<le> dadd (account_balance c) (overdraft_limit c)
        \<longrightarrow> (\<exists>c'. processPayment (Suc n) h dc amount now
                     = Some (Inr True, dc, h(p \<mapsto> Checking c'))
               \<and> account_balance c' = dsub (account_balance c) amount)"
    using processPayment_accepts [of dc p h c amount n now] b' by blast
  from applyWithdraw_relimit [of n f h p amount now]
    processPayment_relimit [of n f h l dc amount now] bal same w pay
  show ?thesis by blast
qed

lemma checking1000_fields:
  "account_balance checking1000 = 1000"
  "overdraft_limit checking1000 = 0"
  "daily_withdrawal_limit checking1000 = 500"
  by (simp_all add: checking1000_def CheckingAccount_new_def BankAccount_init_def
      BankAccount.extend_def CheckingAccount.fields_def setLowBalance_def)

theorem C10_daily_limit_not_enforced_witness:
  "daily_withdrawal_limit checking1000 < 600 \<and> card_daily_withdrawal_limit card4 < 600
   \<and> (\<exists>c'. applyWithdraw (Suc 0) heap_card 1 600 7
               = Some (Inr True, heap_card(1 \<mapsto> Checking c'))
          \<and> account_balance c' = 400)
   \<and> (\<exists>c'. processPayment (Suc 0) heap_card card4 600 7
               = Some (Inr True, card4, heap_card(1 \<mapsto> Checking c'))
          \<and> account_balance c' = 400)"
proof -
  have hp: "heap_card 1 = Some (Checking checking1000)"
    by (simp add: heap_card_def)
  have cardf: "isActivated card4" "linked_debit_card_account card4 = Some 1"
    "card_daily_withdrawal_limit card4 = 500"
    by (simp_all add: card4_def)
  have d: "dadd 1000 0 = 1000" "dsub 1000 600 = 400"
    by (simp_all add: dadd_def dsub_def fl_numeral)
  from C10_daily_limit_not_enforced [where h = heap_card and p = 1 and c = checking1000
      and amount = 600 and n = 0 and now = 7 and dc = card4] hp cardf
  show ?thesis
    by (simp add: checking1000_fields d)
qed

subsection \<open>DebitCard: the lockout after wrong PINs\<close>

lemma verifyPin_locked:
  "3 \<le> failed_attempts c \<Longrightarrow> verifyPin hashPin attempt c = (False, c)"
  by (simp add: verifyPin_def)

lemma verifyPin_wrong:
  assumes "hashPin attempt (salt c) \<noteq> pin_hash c"
  shows "fst (verifyPin hashPin attempt c) = False"
    and "failed_attempts (snd (verifyPin hashPin attempt c))
           = (if 3 \<le> failed_attempts c then failed_attempts c else failed_attempts c + 1)"
    and "(3 \<le> failed_attempts c \<longrightarrow> \<not> isActivated c) \<Longrightarrow>
           3 \<le> failed_attempts (snd (verifyPin hashPin attempt c)) \<longrightarrow>
           \<not> isActivated (snd (verifyPin hashPin attempt c))"
    and "salt (snd (verifyPin hashPin attempt c)) = salt c"
    and "pin_hash (snd (verifyPin hashPin attempt c)) = pin_hash c"
  using assms by (simp_all add: verifyPin_def setActivated_def Let_def)

lemma card_step_keeps_lock:
  assumes "3 \<le> failed_attempts c"
  shows "failed_attempts (card_step hashPin x c) = failed_attempts c"
  using assms
  by (cases x)
    (simp_all add: verifyPin_def setPin_def changePin_def setActivated_def markExpired_def
      setCardNumber_def setExpiration_def setCvv_def enableContactless_def
      SetDailySpendAmount_def SetDailyWithdrawalLimit_def split: option.splits)

lemma card_run_keeps_lock:
  assumes "3 \<le> failed_attempts c"
  shows "failed_attempts (card_run hashPin xs c) = failed_attempts c"
  using assms
proof (induction xs arbitrary: c)
  case Nil
  show ?case by simp
next
  case (Cons x xs)
  from Cons.prems have same: "failed_attempts (card_step hashPin x c) = failed_attempts c"
    by (rule card_step_keeps_lock)
  with Cons.prems have "3 \<le> failed_attempts (card_step hashPin x c)" by simp
  from Cons.IH [OF this] same show ?case by simp
qed

text \<open>
  C5 (as the code has it). A DebitCard whose counter of failed attempts is not negative
  and which is deactivated if the counter has already reached 3 (so every card as its
  constructor or a correct PIN leaves it): after three consecutive calls of verifyPin with
  wrong PINs the card is deactivated and the counter is at least 3. From then on, after any
  sequence of operations of the card, the counter is the same and verifyPin returns false for
  every attempt, the correct PIN included.
\<close>

theorem C5_pin_lockout:
  assumes "0 \<le> failed_attempts c"
    and "3 \<le> failed_attempts c \<longrightarrow> \<not> isActivated c"
    and "hashPin a1 (salt c) \<noteq> pin_hash c"
    and "hashPin a2 (salt c) \<noteq> pin_hash c"
    and "hashPin a3 (salt c) \<noteq> pin_hash c"
  shows "\<not> isActivated (card_run hashPin [VerifyPin a1, VerifyPin a2, VerifyPin a3] c)
       \<and> 3 \<le> failed_attempts (card_run hashPin [VerifyPin a1, VerifyPin a2, VerifyPin a3] c)
       \<and> (\<forall>xs attempt.
            fst (verifyPin hashPin attempt
                   (card_run hashPin xs
                      (card_run hashPin [VerifyPin a1, VerifyPin a2, VerifyPin a3] c))) = False
            \<and> failed_attempts
                 (card_run hashPin xs
                    (card_run hashPin [VerifyPin a1, VerifyPin a2, VerifyPin a3] c))
                = failed_attempts (card_run hashPin [VerifyPin a1, VerifyPin a2, VerifyPin a3] c))"
proof -
  let ?c1 = "snd (verifyPin hashPin a1 c)"
  let ?c2 = "snd (verifyPin hashPin a2 ?c1)"
  let ?c3 = "snd (verifyPin hashPin a3 ?c2)"
  have run: "card_run hashPin [VerifyPin a1, VerifyPin a2, VerifyPin a3] c = ?c3"
    by simp
  note s1 = verifyPin_wrong [of hashPin a1 c, OF assms(3)]
  have w2: "hashPin a2 (salt ?c1) \<noteq> pin_hash ?c1"
    using assms(4) s1(4,5) by simp
  note s2 = verifyPin_wrong [of hashPin a2 ?c1, OF w2]
  have w3: "hashPin a3 (salt ?c2) \<noteq> pin_hash ?c2"
    using assms(5) s1(4,5) s2(4,5) by simp
  note s3 = verifyPin_wrong [of hashPin a3 ?c2, OF w3]
  have i1: "3 \<le> failed_attempts ?c1 \<longrightarrow> \<not> isActivated ?c1"
    using s1(3) assms(2) by blast
  have i2: "3 \<le> failed_attempts ?c2 \<longrightarrow> \<not> isActivated ?c2"
    using s2(3) i1 by blast
  have i3: "3 \<le> failed_attempts ?c3 \<longrightarrow> \<not> isActivated ?c3"
    using s3(3) i2 by blast
  have f1: "1 \<le> failed_attempts ?c1"
    using s1(2) assms(1) by (simp split: if_splits)
  have f2: "2 \<le> failed_attempts ?c2"
    using s2(2) f1 by (simp split: if_splits)
  have locked: "3 \<le> failed_attempts ?c3"
    using s3(2) f2 by (simp split: if_splits)
  with i3 have off: "\<not> isActivated ?c3" by blast
  have later: "fst (verifyPin hashPin attempt (card_run hashPin xs ?c3)) = False
            \<and> failed_attempts (card_run hashPin xs ?c3) = failed_attempts ?c3" for xs attempt
  proof -
    from locked have same: "failed_attempts (card_run hashPin xs ?c3) = failed_attempts ?c3"
      by (rule card_run_keeps_lock)
    with locked have "3 \<le> failed_attempts (card_run hashPin xs ?c3)" by simp
    then have "verifyPin hashPin attempt (card_run hashPin xs ?c3)
                 = (False, card_run hashPin xs ?c3)"
      by (rule verifyPin_locked)
    with same show ?thesis by simp
  qed
  from off locked later show ?thesis
    unfolding run by blast
qed

lemma card4_pin:
  "failed_attempts card4 = 0" "salt card4 = ''s''" "pin_hash card4 = ''s1234''"
  "isActivated card4"
  by (simp_all add: card4_def)

theorem C5_pin_lockout_witness:
  "plain_hash ''1234'' (salt card4) = pin_hash card4
   \<and> \<not> isActivated
        (card_run plain_hash [VerifyPin ''0000'', VerifyPin ''1111'', VerifyPin ''2222''] card4)
   \<and> fst (verifyPin plain_hash ''1234''
        (card_run plain_hash [VerifyPin ''0000'', VerifyPin ''1111'', VerifyPin ''2222''] card4))
       = False"
proof -
  have a: "0 \<le> failed_attempts card4"
    and b: "3 \<le> failed_attempts card4 \<longrightarrow> \<not> isActivated card4"
    and w1: "plain_hash ''0000'' (salt card4) \<noteq> pin_hash card4"
    and w2: "plain_hash ''1111'' (salt card4) \<noteq> pin_hash card4"
    and w3: "plain_hash ''2222'' (salt card4) \<noteq> pin_hash card4"
    and ok: "plain_hash ''1234'' (salt card4) = pin_hash card4"
    by (simp_all add: card4_pin plain_hash_def)
  from C5_pin_lockout [where c = card4 and hashPin = plain_hash and ?a1.0 = "''0000''"
      and ?a2.0 = "''1111''" and ?a3.0 = "''2222''", OF a b w1 w2 w3]
  have "\<not> isActivated
        (card_run plain_hash [VerifyPin ''0000'', VerifyPin ''1111'', VerifyPin ''2222''] card4)"
    and "fst (verifyPin plain_hash ''1234''
        (card_run plain_hash []
          (card_run plain_hash [VerifyPin ''0000'', VerifyPin ''1111'', VerifyPin ''2222''] card4)))
       = False"
    by blast+
  with ok show ?thesis by simp
qed

text \<open>
  C5 as stated fails for a card that was locked and then activated again with
  setActivated(true): three more wrong PINs leave it activated, since verifyPin returns
  before it reaches the statement that deactivates the card.
\<close>

theorem C5_counterexample:
  "plain_hash ''0000'' (salt card4) \<noteq> pin_hash card4
   \<and> \<not> isActivated
        (card_run plain_hash [VerifyPin ''0000'', VerifyPin ''0000'', VerifyPin ''0000''] card4)
   \<and> isActivated
        (card_run plain_hash
           [VerifyPin ''0000'', VerifyPin ''0000'', VerifyPin ''0000'', SetActivated True,
            VerifyPin ''0000'', VerifyPin ''0000'', VerifyPin ''0000''] card4)"
  by (simp add: card4_def plain_hash_def verifyPin_def setActivated_def)

subsection \<open>The example cards, as their constructors build them\<close>

lemma example_values:
  "generateExpiryDate 2026 6 3 = ''07/29''"
  "generateExpiryDate 2026 7 3 = ''08/29''"
  "generateCVV (Some 45) = Inr ''145''"
  "generateCardNumberWithPrefix (\<lambda>i. Some 0) ''4'' = Inr ''4000000000000000''"
  "generateCardNumber (\<lambda>i. 0) ''5'' = ''5000000000000000''"
  by code_simp+

lemma card4_built:
  "DebitCard_new plain_hash debit_env (Some 1) 500 ''1234'' {} = (Inr card4, {})"
  by (simp add: DebitCard_new_def debit_env_def example_values Card_flags_def
      Card.extend_def DebitCard.fields_def setCardNumber_def
      setPin_def plain_hash_def check_pin_hash_def card4_def)

lemma card5_built:
  "CreditCard_new credit_env 1000 True (Some 1) {} = (Inr card5, {})"
  by (simp add: CreditCard_new_def Card_flags_def credit_env_def example_values
      Card.extend_def CreditCard.fields_def setCardNumber_def
      setActivated_def setCvv_def setExpiration_def card5_def)

subsection \<open>Card::validate\<close>

lemma placeholder_cards:
  "\<not> Card_validate Card_default"
  "\<not> Card_validate (Card_flags activated expired year month_byte)"
  "cvv (Card_flags activated expired year month_byte) = ''000''"
  by (simp_all add: Card_validate_def Card_default_def Card_flags_def)

text \<open>
  What Card::validate tests: the card number, the expiration and the CVV are not empty and
  are not "NONE", "NONE" and "None", the values of the default constructor. It compares
  with nothing else.
\<close>

lemma Card_validate_tests:
  "Card_validate c \<longleftrightarrow>
      card_number c \<noteq> [] \<and> expiration c \<noteq> [] \<and> cvv c \<noteq> []
      \<and> card_number c \<noteq> ''NONE'' \<and> expiration c \<noteq> ''NONE'' \<and> cvv c \<noteq> ''None''"
  by (auto simp add: Card_validate_def)

lemma markExpired_validate:
  "expiration (markExpired c) = ''00/00''"
  "Card_validate (markExpired c) \<longleftrightarrow>
     card_number c \<noteq> [] \<and> cvv c \<noteq> [] \<and> card_number c \<noteq> ''NONE'' \<and> cvv c \<noteq> ''None''"
  by (auto simp add: Card_validate_def markExpired_def setActivated_def)

text \<open>
  C8: validate accepts the placeholders "00/00" and "000". The DebitCard \<open>card4\<close>, as its
  constructor builds it, has the CVV "000" that Card(bool, bool) sets, and validate returns
  true on it; after markExpired its expiration is "00/00" and validate still returns true.
  The same holds after markExpired for the CreditCard \<open>card5\<close>, whose CVV is 145.
\<close>

theorem C8_validate_accepts_placeholders:
  "fst (DebitCard_new plain_hash debit_env (Some 1) 500 ''1234'' {}) = Inr card4
   \<and> cvv card4 = ''000''
   \<and> Card_validate card4
   \<and> expiration (markExpired card4) = ''00/00''
   \<and> cvv (markExpired card4) = ''000''
   \<and> Card_validate (markExpired card4)
   \<and> fst (CreditCard_new credit_env 1000 True (Some 1) {}) = Inr card5
   \<and> expiration (markExpired card5) = ''00/00''
   \<and> cvv (markExpired card5) = ''145''
   \<and> Card_validate (markExpired card5)"
proof -
  have "Card_validate card4" "cvv card4 = ''000''"
    "expiration (markExpired card4) = ''00/00''" "cvv (markExpired card4) = ''000''"
    "Card_validate (markExpired card4)"
    by (simp_all add: Card_validate_def markExpired_def setActivated_def card4_def)
  moreover have "expiration (markExpired card5) = ''00/00''" "cvv (markExpired card5) = ''145''"
    "Card_validate (markExpired card5)"
    by (simp_all add: Card_validate_def markExpired_def setActivated_def card5_def)
  moreover have "fst (DebitCard_new plain_hash debit_env (Some 1) 500 ''1234'' {}) = Inr card4"
    using card4_built by simp
  moreover have "fst (CreditCard_new credit_env 1000 True (Some 1) {}) = Inr card5"
    using card5_built by simp
  ultimately show ?thesis
    by blast
qed

subsection \<open>Services::closeAccount\<close>

lemma filter_keeps_length:
  "length (filter P xs) = length xs \<longleftrightarrow> (\<forall>x \<in> set xs. P x)"
proof (induction xs)
  case Nil
  show ?case by simp
next
  case (Cons x xs)
  have "length (filter P xs) \<noteq> Suc (length xs)"
    using length_filter_le [of P xs] by linarith
  with Cons show ?case by auto
qed

lemma removeAccount_list:
  "account_list (snd (removeAccount n c)) = filter (\<lambda>acc. number_of acc \<noteq> n) (account_list c)"
proof (cases "length (filter (\<lambda>acc. number_of acc \<noteq> n) (account_list c)) = length (account_list c)")
  case True
  then have "\<forall>acc \<in> set (account_list c). number_of acc \<noteq> n"
    by (simp add: filter_keeps_length)
  then have "filter (\<lambda>acc. number_of acc \<noteq> n) (account_list c) = account_list c"
    by (simp add: filter_id_conv)
  with True show ?thesis by (simp add: removeAccount_def)
next
  case False
  then show ?thesis by (simp add: removeAccount_def)
qed

lemma removeAccount_found:
  "fst (removeAccount n c) \<longleftrightarrow> (\<exists>acc \<in> set (account_list c). number_of acc = n)"
  using filter_keeps_length [of "\<lambda>acc. number_of acc \<noteq> n" "account_list c"]
  by (auto simp add: removeAccount_def Let_def)

lemma unlink_all_customers:
  "fst (unlink_all n cs u) = map (map_option (\<lambda>c. snd (removeAccount n c))) cs"
proof (induction cs arbitrary: u)
  case Nil
  show ?case by simp
next
  case (Cons x cs)
  show ?case
  proof (cases x)
    case None
    with Cons.IH [of u] show ?thesis by (simp add: case_prod_beta)
  next
    case (Some c)
    with Cons.IH [of "if fst (removeAccount n c) then True else u"] show ?thesis
      by (simp add: case_prod_beta)
  qed
qed

lemma unlink_all_flag:
  "snd (unlink_all n cs u) \<longleftrightarrow> u \<or> (\<exists>c. Some c \<in> set cs \<and> fst (removeAccount n c))"
proof (induction cs arbitrary: u)
  case Nil
  show ?case by simp
next
  case (Cons x cs)
  show ?case
  proof (cases x)
    case None
    with Cons.IH [of u] show ?thesis by (simp add: case_prod_beta)
  next
    case (Some c)
    with Cons.IH [of "if fst (removeAccount n c) then True else u"] show ?thesis
      by (auto simp add: case_prod_beta)
  qed
qed

lemma erase_first_None: "erase_first P xs = None \<longleftrightarrow> (\<forall>x \<in> set xs. \<not> P x)"
  by (induction xs) (auto split: option.splits)

text \<open>
  C9. When some customer owns an account with the number and no entry of the registry of
  accounts has it, closeAccount returns false, and the customers it leaves are the customers
  after removeAccount: the list of customers has changed, no customer owns an account with
  the number any more, and the registry is as it was.
\<close>

theorem C9_closeAccount_not_atomic:
  assumes "Some cu \<in> set (customers s)"
    and "acc \<in> set (account_list cu)"
    and "number_of acc = n"
    and "\<forall>e \<in> set (all_accounts s). (case e of None \<Rightarrow> True | Some a \<Rightarrow> number_of a \<noteq> n)"
  shows "fst (closeAccount n s) = False
       \<and> customers (snd (closeAccount n s))
           = map (map_option (\<lambda>c. snd (removeAccount n c))) (customers s)
       \<and> customers (snd (closeAccount n s)) \<noteq> customers s
       \<and> (\<forall>cu'. Some cu' \<in> set (customers (snd (closeAccount n s))) \<longrightarrow>
             (\<forall>a \<in> set (account_list cu'). number_of a \<noteq> n))
       \<and> all_accounts (snd (closeAccount n s)) = all_accounts s"
proof -
  let ?f = "map_option (\<lambda>c. snd (removeAccount n c))"
  let ?cs = "map ?f (customers s)"
  from assms(2,3) have found: "fst (removeAccount n cu)"
    by (auto simp add: removeAccount_found)
  with assms(1) have flag: "snd (unlink_all n (customers s) False)"
    by (auto simp add: unlink_all_flag)
  have un: "unlink_all n (customers s) False = (?cs, True)"
    using flag unlink_all_customers [of n "customers s" False]
    by (cases "unlink_all n (customers s) False") simp
  have none: "erase_first (\<lambda>e. case e of None \<Rightarrow> False | Some a \<Rightarrow> number_of a = n)
                (all_accounts s) = None"
    using assms(4) by (auto simp add: erase_first_None split: option.splits)
  have res: "closeAccount n s = (False, s\<lparr>customers := ?cs\<rparr>)"
    by (simp add: closeAccount_def un none)
  have changed: "?cs \<noteq> customers s"
  proof
    assume "?cs = customers s"
    then have "map ?f (customers s) = map id (customers s)" by simp
    then have "\<forall>x \<in> set (customers s). ?f x = id x" by (simp only: map_eq_conv)
    with assms(1) have "snd (removeAccount n cu) = cu" by auto
    then have "filter (\<lambda>a. number_of a \<noteq> n) (account_list cu) = account_list cu"
      using removeAccount_list [of n cu] by simp
    then have "\<forall>a \<in> set (account_list cu). number_of a \<noteq> n"
      by (simp add: filter_id_conv)
    with assms(2,3) show False by blast
  qed
  have gone: "\<forall>cu'. Some cu' \<in> set ?cs \<longrightarrow> (\<forall>a \<in> set (account_list cu'). number_of a \<noteq> n)"
  proof (intro allI impI)
    fix cu'
    assume "Some cu' \<in> set ?cs"
    then have "Some cu' \<in> ?f ` set (customers s)" by simp
    then obtain x where "Some cu' = ?f x" by (rule imageE)
    then have "?f x = Some cu'" by (rule sym)
    then have "\<exists>c0. cu' = snd (removeAccount n c0)" by (cases x) auto
    then obtain c0 where "cu' = snd (removeAccount n c0)" by blast
    then show "\<forall>a \<in> set (account_list cu'). number_of a \<noteq> n"
      by (simp add: removeAccount_list)
  qed
  from res changed gone show ?thesis by simp
qed

theorem C9_closeAccount_not_atomic_witness:
  "fst (closeAccount 2001 services_unregistered) = False
   \<and> customers (snd (closeAccount 2001 services_unregistered))
       = [Some (customer_a\<lparr>account_list := [Checking checking100]\<rparr>)]
   \<and> customers (snd (closeAccount 2001 services_unregistered))
       \<noteq> customers services_unregistered"
proof -
  have n600: "number_of (Saving saving600) = 2001"
    by (simp add: number_of_def getAccountNumber_def saving600_def SavingAccount_restore_def
        BankAccount_restore_def BankAccount.extend_def setLowBalance_def)
  have n100: "number_of (Checking checking100) = 3001"
    by (simp add: number_of_def getAccountNumber_def checking100_def CheckingAccount_new_def
        BankAccount_init_def BankAccount.extend_def setLowBalance_def)
  have a1: "Some customer_a \<in> set (customers services_unregistered)"
    by (simp add: services_unregistered_def)
  have a2: "Saving saving600 \<in> set (account_list customer_a)"
    by (simp add: customer_a_def)
  have a4: "\<forall>e \<in> set (all_accounts services_unregistered).
              (case e of None \<Rightarrow> True | Some a \<Rightarrow> number_of a \<noteq> 2001)"
    by (simp add: services_unregistered_def n100)
  have rm: "snd (removeAccount 2001 customer_a)
              = customer_a\<lparr>account_list := [Checking checking100]\<rparr>"
    by (simp add: removeAccount_def customer_a_def n600 n100)
  from C9_closeAccount_not_atomic [where s = services_unregistered and cu = customer_a
      and acc = "Saving saving600" and n = 2001, OF a1 a2 n600 a4]
  have r: "fst (closeAccount 2001 services_unregistered) = False"
    "customers (snd (closeAccount 2001 services_unregistered))
       = map (map_option (\<lambda>c. snd (removeAccount 2001 c))) (customers services_unregistered)"
    "customers (snd (closeAccount 2001 services_unregistered))
       \<noteq> customers services_unregistered"
    by blast+
  have "map (map_option (\<lambda>c. snd (removeAccount 2001 c))) (customers services_unregistered)
          = [Some (customer_a\<lparr>account_list := [Checking checking100]\<rparr>)]"
    by (simp add: services_unregistered_def rm)
  with r show ?thesis by (simp only: simp_thms)
qed

subsection \<open>CardGenerator: what generate returns and what validate accepts\<close>

lemma isdigit_digit_char: "d < 10 \<Longrightarrow> isdigit (digit_char d)"
  by (simp add: isdigit_def digit_char_def)

lemma calculateLuhn_isdigit: "isdigit (calculateLuhn number)"
proof -
  let ?s = "luhn_loop (rev number) 0 False"
  let ?r = "cpp_rem (10 - cpp_rem ?s 10) 10"
  have r: "cpp_rem ?s 10 < 10"
    by (simp add: cpp_rem_def) presburger
  then have "?r = (10 - cpp_rem ?s 10) mod 10"
    by (simp add: cpp_rem_def)
  then have bounds: "0 \<le> ?r" "?r < 10"
    by simp_all
  define k where "k = nat ?r"
  from bounds have k: "k < 10" "?r = int k"
    by (simp_all add: k_def)
  have "48 + int k = int (48 + k)" by simp
  then have "char_of (48 + int k) = (char_of (int (48 + k)) :: char)" by (rule arg_cong)
  also have "\<dots> = char_of (48 + k)" by (rule char_of_nat)
  finally have "calculateLuhn number = digit_char k"
    by (simp add: calculateLuhn_def k(2) digit_char_def)
  with k(1) show ?thesis by (simp add: isdigit_digit_char)
qed

text \<open>
  Every number that generate returns has 16 characters, all digits, starts with the
  prefix, ends in the digit that calculateLuhn gives for the first 15, is recorded in the
  registry and is accepted by validate.
\<close>

lemma generate_returns:
  assumes "generate bin_prefix rnd rand_ok issued = (Inr number, issued')"
  shows "length number = 16"
    and "list_all isdigit number"
    and "take (length bin_prefix) number = bin_prefix"
    and "last number = calculateLuhn (take 15 number)"
    and "issued' = insert number issued"
    and "CardGenerator_validate number issued'"
proof -
  let ?k = "nat (16 - int (length bin_prefix) - 1)"
  let ?body = "bin_prefix @ map (\<lambda>b. digit_char (unat b mod 10)) (map rnd [0..<?k])"
  from assms have pre: "list_all isdigit bin_prefix" and len: "length bin_prefix \<le> 15"
    and num: "number = ?body @ [calculateLuhn ?body]"
    and iss: "issued' = insert number issued"
    by (auto simp add: generate_def Let_def split: if_splits)
  from len have l15: "length ?body = 15" by simp
  with num show l16: "length number = 16" by simp
  have "list_all isdigit ?body"
    using pre by (auto simp add: list_all_iff intro!: isdigit_digit_char)
  with num show "list_all isdigit number"
    by (simp add: calculateLuhn_isdigit)
  from num show "take (length bin_prefix) number = bin_prefix" by simp
  from num l15 have t15: "take 15 number = ?body" by simp
  with num show lst: "last number = calculateLuhn (take 15 number)" by simp
  from iss show "issued' = insert number issued" .
  from l16 lst iss show "CardGenerator_validate number issued'"
    by (simp add: CardGenerator_validate_def)
qed

lemma validate_rejects_unissued:
  "number \<notin> issued \<Longrightarrow> \<not> CardGenerator_validate number issued"
  by (simp add: CardGenerator_validate_def Let_def)

text \<open>
  C6: the check digit is not the one of the standard Luhn check. calculateLuhn starts with
  \<open>alternate = false\<close> on the last digit of the 15 digits it is given, so it doubles the
  digits that the standard check leaves alone and leaves alone those it doubles. With the
  prefix 5 and all random bytes 0, generate returns 5000000000000005, which validate
  accepts and the standard check rejects (the standard check digit is 9); for the payload
  411111111111111 calculateLuhn gives 5 where the standard check digit is 1.
\<close>

theorem C6_generated_number_fails_standard_luhn:
  "fst (generate ''5'' (\<lambda>i. 0) True {}) = Inr ''5000000000000005''
   \<and> CardGenerator_validate ''5000000000000005'' (snd (generate ''5'' (\<lambda>i. 0) True {}))
   \<and> \<not> luhn_standard_valid ''5000000000000005''
   \<and> luhn_standard_valid ''5000000000000009''
   \<and> calculateLuhn ''411111111111111'' = CHR ''5''
   \<and> luhn_standard_valid ''4111111111111111''
   \<and> \<not> luhn_standard_valid ''4111111111111115''"
  by code_simp

subsection \<open>Card numbers at the construction of a DebitCard and of a CreditCard\<close>

lemma validate_iff:
  "CardGenerator_validate number issued \<longleftrightarrow>
     13 \<le> length number \<and> length number \<le> 19
     \<and> last number = calculateLuhn (take (length number - 1) number) \<and> number \<in> issued"
  by (auto simp add: CardGenerator_validate_def Let_def)

lemma draw_digits_result:
  assumes "draw_digits rnd i k cardNumber = Inr number"
  shows "\<exists>ds. length ds = k \<and> list_all isdigit ds \<and> number = cardNumber @ ds"
  using assms
proof (induction k arbitrary: i cardNumber)
  case 0
  then show ?case by simp
next
  case (Suc k)
  from Suc.prems obtain digit where d: "rnd i = Some digit"
    and rest: "draw_digits rnd (Suc i) k (cardNumber @ [digit_char (unat digit mod 10)]) = Inr number"
    by (auto split: option.splits)
  from Suc.IH [OF rest] obtain ds where ds: "length ds = k" "list_all isdigit ds"
    "number = (cardNumber @ [digit_char (unat digit mod 10)]) @ ds"
    by blast
  let ?ds = "digit_char (unat digit mod 10) # ds"
  from ds have "length ?ds = Suc k \<and> list_all isdigit ?ds \<and> number = cardNumber @ ?ds"
    by (simp add: isdigit_digit_char)
  then show ?case by blast
qed

lemma generateCardNumberWithPrefix_4:
  assumes "generateCardNumberWithPrefix rnd ''4'' = Inr number"
  shows "length number = 16" and "list_all isdigit number" and "hd number = CHR ''4''"
proof -
  from assms have "draw_digits rnd 0 15 ''4'' = Inr number"
    by (simp add: generateCardNumberWithPrefix_def)
  from draw_digits_result [OF this] obtain ds where ds: "length ds = 15" "list_all isdigit ds"
    "number = ''4'' @ ds"
    by blast
  from ds show "length number = 16" by simp
  from ds show "list_all isdigit number" by (simp add: isdigit_def)
  from ds show "hd number = CHR ''4''" by simp
qed

lemma setPin_card_number: "card_number (snd (setPin hashPin sl p c)) = card_number c"
  by (simp add: setPin_def split: option.splits)

lemma check_pin_hash_Inr: "check_pin_hash c = Inr c' \<Longrightarrow> c' = c"
  by (simp add: check_pin_hash_def split: if_splits)

lemma DebitCard_new_result:
  assumes "DebitCard_new hashPin env acc limit p issued = (Inr c, issued')"
  shows "issued' = issued"
    and "generateCardNumberWithPrefix (digit_bytes env) ''4'' = Inr (card_number c)"
proof -
  let ?c0 = "Card.extend (Card_flags True False (current_year env) (expiry_byte env))
               (DebitCard.fields [] [] limit 0 True 0 acc [])"
  from assms obtain number where g:
    "generateCardNumberWithPrefix (digit_bytes env) ''4'' = Inr number"
    by (cases "generateCardNumberWithPrefix (digit_bytes env) ''4''")
      (simp_all add: DebitCard_new_def)
  let ?c1 = "setCardNumber number ?c0"
  let ?r1 = "setPin hashPin (first_salt env) p ?c1"
  let ?r2 = "setPin hashPin (second_salt env) ''0000'' (snd ?r1)"
  have n1: "card_number (snd ?r1) = number"
    by (simp add: setPin_card_number setCardNumber_def)
  have n2: "card_number (snd ?r2) = number"
    by (simp add: setPin_card_number setCardNumber_def)
  from assms g have "issued' = issued \<and> (c = snd ?r1 \<or> c = snd ?r2)"
    by (cases ?r1; cases ?r2)
      (auto simp add: DebitCard_new_def Let_def
        split: if_splits sum.splits bool.splits dest: check_pin_hash_Inr)
  with n1 n2 g show "issued' = issued"
    and "generateCardNumberWithPrefix (digit_bytes env) ''4'' = Inr (card_number c)"
    by auto
qed

lemma to_string_digit: "d < 10 \<Longrightarrow> to_string (int d) = [digit_char d]"
  by (simp add: to_string_def)

lemma generateCardNumber_digits:
  assumes "\<forall>i < 15. d i < 10"
  shows "generateCardNumber d prefix = prefix @ map (\<lambda>i. digit_char (d i)) [0..<15]"
proof -
  have "map (\<lambda>i. to_string (int (d i))) [0..<15] = map (\<lambda>i. [digit_char (d i)]) [0..<15]"
    using assms by (intro map_cong) (simp_all add: to_string_digit)
  then show ?thesis
    by (simp only: generateCardNumber_def concat_map_singleton)
qed

lemma CreditCard_new_result:
  assumes "CreditCard_new env limit activated linked issued = (Inr cc, issued')"
  shows "issued' = issued"
    and "card_number cc = generateCardNumber (dist env) ''5''"
  using assms
  by (auto simp add: CreditCard_new_def Let_def setExpiration_def
      setCvv_def setCardNumber_def setActivated_def Card.extend_def
      split: sum.splits)

text \<open>
  C7 (as the code has it). Neither constructor takes the number of the card from the card
  number generator. The constructor of a DebitCard draws it in
  generateCardNumberWithPrefix: the digit 4 and fifteen random digits. The constructor of a
  CreditCard draws it in Card::generateCardNumber: the digit 5 and the fifteen values of the
  distribution, digits when the values are below 10. The construction of a DebitCard leaves
  the registry as it was. For both cards the number of the card is in the registry after
  the construction only if it was there before, and validate accepts it exactly when it was
  there before and its last digit is the one calculateLuhn gives for the first fifteen.
\<close>

theorem C7_card_numbers_at_construction:
  "(DebitCard_new hashPin env acc limit p issued = (Inr c, issued') \<longrightarrow>
      issued' = issued
      \<and> generateCardNumberWithPrefix (digit_bytes env) ''4'' = Inr (card_number c)
      \<and> length (card_number c) = 16 \<and> list_all isdigit (card_number c)
      \<and> hd (card_number c) = CHR ''4''
      \<and> (card_number c \<in> issued' \<longleftrightarrow> card_number c \<in> issued)
      \<and> (CardGenerator_validate (card_number c) issued' \<longleftrightarrow>
           card_number c \<in> issued
           \<and> last (card_number c) = calculateLuhn (take 15 (card_number c))))
   \<and> (CreditCard_new cenv climit activated linked issued = (Inr cc, issued'') \<longrightarrow>
      card_number cc = generateCardNumber (dist cenv) ''5''
      \<and> hd (card_number cc) = CHR ''5''
      \<and> ((\<forall>i < 15. dist cenv i < 10) \<longrightarrow>
           length (card_number cc) = 16 \<and> list_all isdigit (card_number cc)
           \<and> (CardGenerator_validate (card_number cc) issued'' \<longleftrightarrow>
                card_number cc \<in> issued
                \<and> last (card_number cc) = calculateLuhn (take 15 (card_number cc))))
      \<and> (card_number cc \<in> issued'' \<longleftrightarrow> card_number cc \<in> issued)
      \<and> (card_number cc \<notin> issued \<longrightarrow> \<not> CardGenerator_validate (card_number cc) issued''))"
proof (intro conjI impI)
  assume d: "DebitCard_new hashPin env acc limit p issued = (Inr c, issued')"
  note r = DebitCard_new_result [OF d]
  note g = generateCardNumberWithPrefix_4 [OF r(2)]
  from r(1) show "issued' = issued" .
  from r(2) show "generateCardNumberWithPrefix (digit_bytes env) ''4'' = Inr (card_number c)" .
  from g show "length (card_number c) = 16" "list_all isdigit (card_number c)"
    "hd (card_number c) = CHR ''4''"
    by simp_all
  from r(1) show "card_number c \<in> issued' \<longleftrightarrow> card_number c \<in> issued" by simp
  from g(1) r(1) show "CardGenerator_validate (card_number c) issued' \<longleftrightarrow>
           card_number c \<in> issued
           \<and> last (card_number c) = calculateLuhn (take 15 (card_number c))"
    by (auto simp add: validate_iff)
next
  assume k: "CreditCard_new cenv climit activated linked issued = (Inr cc, issued'')"
  note r = CreditCard_new_result [OF k]
  from r(2) show n: "card_number cc = generateCardNumber (dist cenv) ''5''" .
  from n show "hd (card_number cc) = CHR ''5''"
    by (simp add: generateCardNumber_def)
  from r(1) show "card_number cc \<in> issued'' \<longleftrightarrow> card_number cc \<in> issued" by simp
  {
    assume "card_number cc \<notin> issued"
    with r(1) show "\<not> CardGenerator_validate (card_number cc) issued''"
      by (simp add: validate_rejects_unissued)
  }
  {
    assume digits: "\<forall>i < 15. dist cenv i < 10"
    from generateCardNumber_digits [OF digits, of "''5''"] n
    have m: "card_number cc = ''5'' @ map (\<lambda>i. digit_char (dist cenv i)) [0..<15]"
      by simp
    then show l: "length (card_number cc) = 16" by simp
    from m digits show "list_all isdigit (card_number cc)"
      by (simp add: list_all_iff isdigit_def isdigit_digit_char [unfolded isdigit_def])
    from l r(1) show "CardGenerator_validate (card_number cc) issued'' \<longleftrightarrow>
                card_number cc \<in> issued
                \<and> last (card_number cc) = calculateLuhn (take 15 (card_number cc))"
      by (auto simp add: validate_iff)
  }
qed

theorem C7_card_numbers_at_construction_witness:
  "generateCardNumberWithPrefix (digit_bytes debit_env) ''4'' = Inr (card_number card4)
   \<and> length (card_number card4) = 16
   \<and> card_number card5 = generateCardNumber (dist credit_env) ''5''
   \<and> length (card_number card5) = 16
   \<and> \<not> CardGenerator_validate (card_number card5) {}"
proof -
  have digits: "\<forall>i < 15. dist credit_env i < 10"
    by (simp add: credit_env_def)
  from C7_card_numbers_at_construction [where hashPin = plain_hash and env = debit_env
      and acc = "Some 1" and limit = 500 and p = "''1234''" and issued = "{}" and c = card4
      and issued' = "{}" and cenv = credit_env and climit = 1000 and activated = True
      and linked = "Some 1" and cc = card5 and issued'' = "{}"]
    card4_built card5_built digits
  show ?thesis
    by blast
qed

text \<open>
  C7 as stated fails for both cards. The DebitCard built from \<open>debit_env\<close> has the number
  4000000000000000 and the CreditCard built from \<open>credit_env\<close> has the number
  5000000000000000; after each construction the registry is still empty and validate
  rejects the number of the card.
\<close>

theorem C7_counterexample:
  "DebitCard_new plain_hash debit_env (Some 1) 500 ''1234'' {} = (Inr card4, {})
   \<and> card_number card4 = ''4000000000000000''
   \<and> \<not> CardGenerator_validate (card_number card4) {}
   \<and> CreditCard_new credit_env 1000 True (Some 1) {} = (Inr card5, {})
   \<and> card_number card5 = ''5000000000000000''
   \<and> \<not> CardGenerator_validate (card_number card5) {}"
proof -
  have n4: "card_number card4 = ''4000000000000000''"
    by (simp add: card4_def)
  have n5: "card_number card5 = ''5000000000000000''"
    by (simp add: card5_def)
  from validate_rejects_unissued [of "card_number card4" "{}"]
  have r4: "\<not> CardGenerator_validate (card_number card4) {}"
    by simp
  from validate_rejects_unissued [of "card_number card5" "{}"]
  have r5: "\<not> CardGenerator_validate (card_number card5) {}"
    by simp
  from card4_built card5_built n4 n5 r4 r5 show ?thesis
    by blast
qed

end
